theory Spec2Isabelle
  imports Complex_Main
begin

section \<open>Python exceptions\<close>

text \<open>
  Every exception the blocks of \<^verbatim>\<open>unet_blocks.py\<close> can raise is a value.
  \<open>ValueError\<close>, \<open>NotImplementedError\<close>, \<open>IndexError\<close>, \<open>TypeError\<close>,
  \<open>ZeroDivisionError\<close> and \<open>AttributeError\<close> are raised by the statements of the file itself;
  \<open>BackendError\<close> stands for any exception raised inside a call into einops, torch or
  diffusers (a shape that does not fit the pattern, a tensor that is \<open>None\<close>, ...).
\<close>

datatype error =
    ValueError
  | NotImplementedError
  | IndexError
  | TypeError
  | ZeroDivisionError
  | AttributeError
  | BackendError

section \<open>Tensors and the reshape protocol\<close>

text \<open>
  A tensor is its shape and its elements in row-major order (the order of a contiguous
  torch tensor). The element type is left open: the reshapes only move elements.
\<close>

record 'a tensor =
  shape :: "nat list"
  data :: "'a list"

definition wf_tensor :: "'a tensor \<Rightarrow> bool" where
  "wf_tensor t = (length (data t) = prod_list (shape t))"

text \<open>Row-major offset of a multi-index, and the multi-index of an offset.\<close>

fun ravel :: "nat list \<Rightarrow> nat list \<Rightarrow> nat" where
  "ravel (d # ds) (i # is) = i * prod_list ds + ravel ds is"
| "ravel _ _ = 0"

fun unravel :: "nat list \<Rightarrow> nat \<Rightarrow> nat list" where
  "unravel [] j = []"
| "unravel (d # ds) j = (j div prod_list ds) # unravel ds (j mod prod_list ds)"

text \<open>
  \<^verbatim>\<open>rearrange(x, "b c f h w -> (b f) c h w")\<close>: the input must have five axes; the
  element at \<open>(b, c, f, h, w)\<close> moves to \<open>(b * F + f, c, h, w)\<close>.
\<close>

definition rearrange_bcfhw_to_bfchw :: "'a tensor \<Rightarrow> error + 'a tensor" where
  "rearrange_bcfhw_to_bfchw x =
     (case shape x of
        [B, C, F, H, W] \<Rightarrow>
          Inr \<lparr>shape = [B * F, C, H, W],
               data = map (\<lambda>i. case unravel [B * F, C, H, W] i of
                                   [n, c, h, w] \<Rightarrow> data x ! ravel [B, C, F, H, W] [n div F, c, n mod F, h, w]
                                 | _ \<Rightarrow> undefined)
                          [0..<prod_list [B * F, C, H, W]]\<rparr>
      | _ \<Rightarrow> Inl BackendError)"

text \<open>
  \<^verbatim>\<open>rearrange(x, "(b f) c h w -> b c f h w", f=f)\<close>: the input must have four axes and
  its first axis must split into chunks of \<open>f\<close>; einops computes \<open>N % f\<close> and \<open>N // f\<close>,
  so \<open>f = 0\<close> raises (a division by zero). The element at \<open>(b * f + k, c, h, w)\<close> moves to
  \<open>(b, c, k, h, w)\<close>.
\<close>

definition rearrange_bfchw_to_bcfhw :: "'a tensor \<Rightarrow> nat \<Rightarrow> error + 'a tensor" where
  "rearrange_bfchw_to_bcfhw x f =
     (case shape x of
        [N, C, H, W] \<Rightarrow>
          if f = 0 then Inl BackendError
          else if N mod f \<noteq> 0 then Inl BackendError
          else
            Inr \<lparr>shape = [N div f, C, f, H, W],
                 data = map (\<lambda>j. case unravel [N div f, C, f, H, W] j of
                                     [b, c, k, h, w] \<Rightarrow> data x ! ravel [N, C, H, W] [b * f + k, c, h, w]
                                   | _ \<Rightarrow> undefined)
                            [0..<prod_list [N div f, C, f, H, W]]\<rparr>
      | _ \<Rightarrow> Inl BackendError)"


text \<open>
  \<^verbatim>\<open>repeat(temb, "b c -> (b f) c", f=video_length)\<close>: \<open>temb\<close> must be a tensor with two
  axes (its default \<open>None\<close> makes einops raise); row \<open>b\<close> is written \<open>f\<close> times.
\<close>

definition repeat_bc_to_bfc :: "'a tensor option \<Rightarrow> nat \<Rightarrow> error + 'a tensor" where
  "repeat_bc_to_bfc temb f =
     (case temb of
        None \<Rightarrow> Inl BackendError
      | Some t \<Rightarrow>
          (case shape t of
             [B, D] \<Rightarrow>
               Inr \<lparr>shape = [B * f, D],
                    data = map (\<lambda>i. case unravel [B * f, D] i of
                                        [n, d] \<Rightarrow> data t ! ravel [B, D] [n div f, d]
                                      | _ \<Rightarrow> undefined)
                               [0..<prod_list [B * f, D]]\<rparr>
           | _ \<Rightarrow> Inl BackendError))"

text \<open>
  \<^verbatim>\<open>torch.cat([x, y], dim=1)\<close>: both tensors need at least two axes and the same sizes
  on every axis but axis 1; the channels of \<open>y\<close> follow those of \<open>x\<close>.
\<close>

definition torch_cat_dim1 :: "'a tensor \<Rightarrow> 'a tensor \<Rightarrow> error + 'a tensor" where
  "torch_cat_dim1 x y =
     (case (shape x, shape y) of
        (b # c1 # rest, b' # c2 # rest') \<Rightarrow>
          if b = b' \<and> rest = rest' then
            Inr \<lparr>shape = b # (c1 + c2) # rest,
                 data = map (\<lambda>i. case unravel (b # (c1 + c2) # rest) i of
                                     n # c # r \<Rightarrow>
                                       if c < c1 then data x ! ravel (shape x) (n # c # r)
                                       else data y ! ravel (shape y) (n # (c - c1) # r)
                                   | _ \<Rightarrow> undefined)
                            [0..<prod_list (b # (c1 + c2) # rest)]\<rparr>
          else Inl BackendError
      | _ \<Rightarrow> Inl BackendError)"

text \<open>\<^verbatim>\<open>hidden_states.shape[2]\<close>: indexing the shape tuple past its end raises.\<close>

definition shape_2 :: "'a tensor \<Rightarrow> error + nat" where
  "shape_2 x = (if length (shape x) \<le> 2 then Inl IndexError else Inr (shape x ! 2))"

section \<open>Keyword-argument dictionaries in a store\<close>

text \<open>
  \<^verbatim>\<open>cross_attention_kwargs\<close> and \<^verbatim>\<open>motion_cross_attention_kwargs\<close> are Python
  dictionaries; the forward methods write the key \<^verbatim>\<open>"scale"\<close> into them in place, so
  two names can denote one object. Dictionaries therefore live in a store, a list
  indexed by address; a reference is an address, \<^verbatim>\<open>None\<close> is \<open>None\<close>.
  A keyword argument of a call is omitted, passed as \<^verbatim>\<open>None\<close>, or passed as a
  reference.
\<close>

type_synonym kwargs = "string \<rightharpoonup> real"
type_synonym addr = nat
type_synonym heap = "kwargs list"

datatype kwarg = Omitted | PyNone | Ref addr

definition resolve :: "addr option \<Rightarrow> kwarg \<Rightarrow> addr option" where
  "resolve dflt k = (case k of Omitted \<Rightarrow> dflt | PyNone \<Rightarrow> None | Ref a \<Rightarrow> Some a)"

definition deref :: "heap \<Rightarrow> addr option \<Rightarrow> kwargs option" where
  "deref hp r = map_option (\<lambda>a. hp ! a) r"

text \<open>
  A default value \<^verbatim>\<open>={}\<close> in a \<^verbatim>\<open>def\<close> is one dictionary, created when the module
  is loaded and shared by every call that omits the argument.
  \<^verbatim>\<open>CrossAttnDownBlock3D.forward\<close> has two of them, \<^verbatim>\<open>DownBlock3D.forward\<close>,
  \<^verbatim>\<open>CrossAttnUpBlock3D.forward\<close> and \<^verbatim>\<open>UpBlock3D.forward\<close> one each;
  \<open>module_heap\<close> is the store right after the module has been loaded.
\<close>

definition CrossAttnDownBlock3D_default_cross_attention_kwargs :: addr where
  "CrossAttnDownBlock3D_default_cross_attention_kwargs = 0"

definition CrossAttnDownBlock3D_default_motion_cross_attention_kwargs :: addr where
  "CrossAttnDownBlock3D_default_motion_cross_attention_kwargs = 1"

definition DownBlock3D_default_motion_cross_attention_kwargs :: addr where
  "DownBlock3D_default_motion_cross_attention_kwargs = 2"

definition CrossAttnUpBlock3D_default_motion_cross_attention_kwargs :: addr where
  "CrossAttnUpBlock3D_default_motion_cross_attention_kwargs = 3"

definition UpBlock3D_default_motion_cross_attention_kwargs :: addr where
  "UpBlock3D_default_motion_cross_attention_kwargs = 4"

definition module_heap :: heap where
  "module_heap = [Map.empty, Map.empty, Map.empty, Map.empty, Map.empty]"

definition loaded :: "heap \<Rightarrow> bool" where
  "loaded hp = (5 \<le> length hp)"

definition valid_kwarg :: "heap \<Rightarrow> kwarg \<Rightarrow> bool" where
  "valid_kwarg hp k = (case k of Ref a \<Rightarrow> a < length hp | _ \<Rightarrow> True)"

text \<open>
  The adapter-scale statements at the start of a forward call.
  \<^verbatim>\<open>cross_attention_kwargs["scale"] = lora_scale\<close> (\<^verbatim>\<open>CrossAttnDownBlock3D\<close>) writes
  into the dictionary the name denotes and raises \<^verbatim>\<open>TypeError\<close> on \<^verbatim>\<open>None\<close>;
  \<^verbatim>\<open>cross_attention_kwargs = {"scale": lora_scale}\<close> (mid and up block) binds the
  name to a new dictionary. \<^verbatim>\<open>getattr(self, "lora_scale", None)\<close> is the option
  stored in the block.
\<close>

definition set_lora_scale_in_place :: "heap \<Rightarrow> real option \<Rightarrow> addr option \<Rightarrow> error + (heap \<times> addr option)" where
  "set_lora_scale_in_place hp lora_scale cross_attention_kwargs =
     (case lora_scale of
        None \<Rightarrow> Inr (hp, cross_attention_kwargs)
      | Some s \<Rightarrow>
          (case cross_attention_kwargs of
             None \<Rightarrow> Inl TypeError
           | Some a \<Rightarrow> Inr (hp[a := (hp ! a)(''scale'' \<mapsto> s)], Some a)))"

definition set_lora_scale_new_dict :: "heap \<Rightarrow> real option \<Rightarrow> addr option \<Rightarrow> heap \<times> addr option" where
  "set_lora_scale_new_dict hp lora_scale cross_attention_kwargs =
     (case lora_scale of
        None \<Rightarrow> (hp, cross_attention_kwargs)
      | Some s \<Rightarrow> (hp @ [Map.empty(''scale'' \<mapsto> s)], Some (length hp)))"

text \<open>
  The motion scale: \<^verbatim>\<open>{"scale": motion_lora_scale}\<close> when the argument is \<^verbatim>\<open>None\<close>,
  \<^verbatim>\<open>motion_cross_attention_kwargs.update({"scale": motion_lora_scale})\<close> otherwise.
  The five forward methods contain the same five lines.
\<close>

definition set_motion_lora_scale :: "heap \<Rightarrow> real option \<Rightarrow> addr option \<Rightarrow> heap \<times> addr option" where
  "set_motion_lora_scale hp motion_lora_scale motion_cross_attention_kwargs =
     (case motion_lora_scale of
        None \<Rightarrow> (hp, motion_cross_attention_kwargs)
      | Some s \<Rightarrow>
          (case motion_cross_attention_kwargs of
             None \<Rightarrow> (hp @ [Map.empty(''scale'' \<mapsto> s)], Some (length hp))
           | Some a \<Rightarrow> (hp[a := (hp ! a)(''scale'' \<mapsto> s)], Some a)))"


section \<open>Operators of the libraries\<close>

text \<open>
  \<^verbatim>\<open>ResnetBlock2D\<close>, \<^verbatim>\<open>Transformer2DModel\<close>, \<^verbatim>\<open>Downsample2D\<close> and
  \<^verbatim>\<open>Upsample2D\<close> are classes of diffusers. An instance is the record of the arguments
  it was constructed with; what it computes is a parameter of the forward methods
  (the record \<open>backend\<close> below). The hyper-parameters the blocks only hand on
  (dropout, eps, activation, scale factors, projection flags) travel as one opaque
  value \<open>'hp\<close>. A motion module is a value of the open type \<open>'mm\<close>, made by
  \<^verbatim>\<open>get_motion_module\<close>, which is a parameter of the constructors: the module
  \<^verbatim>\<open>motion_module.py\<close> is not among the source files.
\<close>

record 'hp ResnetBlock2D =
  rb_in_channels :: int
  rb_out_channels :: int
  rb_temb_channels :: int
  rb_groups :: "int option"
  rb_hyper :: 'hp

record 'hp Transformer2DModel =
  tm_num_attention_heads :: int
  tm_attention_head_dim :: int
  tm_in_channels :: int
  tm_num_layers :: int
  tm_cross_attention_dim :: "int option"
  tm_norm_num_groups :: "int option"
  tm_hyper :: 'hp

record Downsample2D =
  ds_channels :: int
  ds_use_conv :: bool
  ds_out_channels :: int
  ds_padding :: "int option"
  ds_name :: string

record Upsample2D =
  us_channels :: int
  us_use_conv :: bool
  us_out_channels :: int

section \<open>Blocks and their constructors\<close>

text \<open>
  The keyword arguments of a constructor call. The five constructors and the two
  factories take subsets of the same arguments; each reads the fields it declares.
\<close>

record ('hp, 'mt, 'mk) block_args =
  num_layers :: int
  in_channels :: int
  out_channels :: int
  prev_output_channel :: int
  temb_channels :: int
  add_downsample :: bool
  add_upsample :: bool
  resnet_groups :: "int option"
  attn_num_head_channels :: int
  cross_attention_dim :: "int option"
  downsample_padding :: "int option"
  dual_cross_attention :: bool
  use_motion_module :: bool
  motion_module_type :: 'mt
  motion_module_kwargs :: 'mk
  hyper :: 'hp

text \<open>
  The attributes of a block instance. An attribute a class never sets is \<open>None\<close>
  (\<open>[]\<close> for \<open>attentions\<close> of the plain blocks): the mid block has no
  \<^verbatim>\<open>gradient_checkpointing\<close> unless somebody sets it from outside, and
  \<^verbatim>\<open>lora_scale\<close> and \<^verbatim>\<open>motion_lora_scale\<close> exist only once an adapter controller has
  set them. \<^verbatim>\<open>training\<close> is the flag of \<^verbatim>\<open>nn.Module\<close>, \<open>True\<close> in a new module.
\<close>

record ('hp, 'mm) block =
  has_cross_attention :: "bool option"
  self_attn_num_head_channels :: "int option"
  resnets :: "'hp ResnetBlock2D list"
  attentions :: "'hp Transformer2DModel list"
  motion_modules :: "'mm option list"
  downsamplers :: "Downsample2D list option"
  upsamplers :: "Upsample2D list option"
  gradient_checkpointing :: "bool option"
  training :: bool
  lora_scale :: "real option"
  motion_lora_scale :: "real option"

text \<open>\<^verbatim>\<open>range(n)\<close>, and a loop body that may raise run over a list.\<close>

definition py_range :: "int \<Rightarrow> int list" where
  "py_range n = map int [0..<nat n]"

primrec for_each :: "('i \<Rightarrow> error + 'x) \<Rightarrow> 'i list \<Rightarrow> error + 'x list" where
  "for_each f [] = Inr []"
| "for_each f (i # is) =
     (case f i of
        Inl e \<Rightarrow> Inl e
      | Inr x \<Rightarrow> (case for_each f is of Inl e \<Rightarrow> Inl e | Inr xs \<Rightarrow> Inr (x # xs)))"

text \<open>\<^verbatim>\<open>get_motion_module(...) if use_motion_module else None\<close>\<close>

definition new_motion_module ::
  "(int \<Rightarrow> 'mt \<Rightarrow> 'mk \<Rightarrow> error + 'mm) \<Rightarrow> ('hp, 'mt, 'mk) block_args \<Rightarrow> int \<Rightarrow> error + 'mm option" where
  "new_motion_module get_motion_module a channels =
     (if use_motion_module a then
        (case get_motion_module channels (motion_module_type a) (motion_module_kwargs a) of
           Inl e \<Rightarrow> Inl e
         | Inr m \<Rightarrow> Inr (Some m))
      else Inr None)"

definition new_resnet :: "('hp, 'mt, 'mk) block_args \<Rightarrow> int \<Rightarrow> int \<Rightarrow> 'hp ResnetBlock2D" where
  "new_resnet a cin cout =
     \<lparr>rb_in_channels = cin, rb_out_channels = cout, rb_temb_channels = temb_channels a,
      rb_groups = resnet_groups a, rb_hyper = hyper a\<rparr>"

text \<open>
  \<^verbatim>\<open>Transformer2DModel(attn_num_head_channels, channels // attn_num_head_channels, ...)\<close>,
  after the \<^verbatim>\<open>dual_cross_attention\<close> check that precedes it in each loop body.
\<close>

definition new_attention :: "('hp, 'mt, 'mk) block_args \<Rightarrow> int \<Rightarrow> error + 'hp Transformer2DModel" where
  "new_attention a channels =
     (if dual_cross_attention a then Inl NotImplementedError
      else if attn_num_head_channels a = 0 then Inl ZeroDivisionError
      else Inr \<lparr>tm_num_attention_heads = attn_num_head_channels a,
                tm_attention_head_dim = channels div attn_num_head_channels a,
                tm_in_channels = channels, tm_num_layers = 1,
                tm_cross_attention_dim = cross_attention_dim a,
                tm_norm_num_groups = resnet_groups a, tm_hyper = hyper a\<rparr>)"

definition new_downsamplers :: "('hp, 'mt, 'mk) block_args \<Rightarrow> Downsample2D list option" where
  "new_downsamplers a =
     (if add_downsample a then
        Some [\<lparr>ds_channels = out_channels a, ds_use_conv = True, ds_out_channels = out_channels a,
               ds_padding = downsample_padding a, ds_name = ''op''\<rparr>]
      else None)"

definition new_upsamplers :: "('hp, 'mt, 'mk) block_args \<Rightarrow> Upsample2D list option" where
  "new_upsamplers a =
     (if add_upsample a then
        Some [\<lparr>us_channels = out_channels a, us_use_conv = True, us_out_channels = out_channels a\<rparr>]
      else None)"

subsection \<open>\<^verbatim>\<open>CrossAttnDownBlock3D.__init__\<close> and \<^verbatim>\<open>DownBlock3D.__init__\<close>\<close>

definition CrossAttnDownBlock3D_layer ::
  "(int \<Rightarrow> 'mt \<Rightarrow> 'mk \<Rightarrow> error + 'mm) \<Rightarrow> ('hp, 'mt, 'mk) block_args \<Rightarrow> int
     \<Rightarrow> error + ('hp ResnetBlock2D \<times> 'hp Transformer2DModel \<times> 'mm option)" where
  "CrossAttnDownBlock3D_layer get_motion_module a i =
     (let in_channels = (if i = 0 then in_channels a else out_channels a);
          resnet = new_resnet a in_channels (out_channels a)
      in case new_attention a (out_channels a) of
           Inl e \<Rightarrow> Inl e
         | Inr attn \<Rightarrow>
             (case new_motion_module get_motion_module a (out_channels a) of
                Inl e \<Rightarrow> Inl e
              | Inr mm \<Rightarrow> Inr (resnet, attn, mm)))"

definition CrossAttnDownBlock3D_init ::
  "(int \<Rightarrow> 'mt \<Rightarrow> 'mk \<Rightarrow> error + 'mm) \<Rightarrow> ('hp, 'mt, 'mk) block_args \<Rightarrow> error + ('hp, 'mm) block" where
  "CrossAttnDownBlock3D_init get_motion_module a =
     (case for_each (CrossAttnDownBlock3D_layer get_motion_module a) (py_range (num_layers a)) of
        Inl e \<Rightarrow> Inl e
      | Inr layers \<Rightarrow>
          Inr \<lparr>has_cross_attention = Some True,
               self_attn_num_head_channels = Some (attn_num_head_channels a),
               resnets = map fst layers,
               attentions = map (fst \<circ> snd) layers,
               motion_modules = map (snd \<circ> snd) layers,
               downsamplers = new_downsamplers a,
               upsamplers = None,
               gradient_checkpointing = Some False,
               training = True,
               lora_scale = None,
               motion_lora_scale = None\<rparr>)"

definition DownBlock3D_layer ::
  "(int \<Rightarrow> 'mt \<Rightarrow> 'mk \<Rightarrow> error + 'mm) \<Rightarrow> ('hp, 'mt, 'mk) block_args \<Rightarrow> int
     \<Rightarrow> error + ('hp ResnetBlock2D \<times> 'mm option)" where
  "DownBlock3D_layer get_motion_module a i =
     (let in_channels = (if i = 0 then in_channels a else out_channels a);
          resnet = new_resnet a in_channels (out_channels a)
      in case new_motion_module get_motion_module a (out_channels a) of
           Inl e \<Rightarrow> Inl e
         | Inr mm \<Rightarrow> Inr (resnet, mm))"

definition DownBlock3D_init ::
  "(int \<Rightarrow> 'mt \<Rightarrow> 'mk \<Rightarrow> error + 'mm) \<Rightarrow> ('hp, 'mt, 'mk) block_args \<Rightarrow> error + ('hp, 'mm) block" where
  "DownBlock3D_init get_motion_module a =
     (case for_each (DownBlock3D_layer get_motion_module a) (py_range (num_layers a)) of
        Inl e \<Rightarrow> Inl e
      | Inr layers \<Rightarrow>
          Inr \<lparr>has_cross_attention = None,
               self_attn_num_head_channels = None,
               resnets = map fst layers,
               attentions = [],
               motion_modules = map snd layers,
               downsamplers = new_downsamplers a,
               upsamplers = None,
               gradient_checkpointing = Some False,
               training = True,
               lora_scale = None,
               motion_lora_scale = None\<rparr>)"

subsection \<open>\<^verbatim>\<open>CrossAttnUpBlock3D.__init__\<close> and \<^verbatim>\<open>UpBlock3D.__init__\<close>\<close>

definition CrossAttnUpBlock3D_layer ::
  "(int \<Rightarrow> 'mt \<Rightarrow> 'mk \<Rightarrow> error + 'mm) \<Rightarrow> ('hp, 'mt, 'mk) block_args \<Rightarrow> int
     \<Rightarrow> error + ('hp ResnetBlock2D \<times> 'hp Transformer2DModel \<times> 'mm option)" where
  "CrossAttnUpBlock3D_layer get_motion_module a i =
     (let res_skip_channels = (if i = num_layers a - 1 then in_channels a else out_channels a);
          resnet_in_channels = (if i = 0 then prev_output_channel a else out_channels a);
          resnet = new_resnet a (resnet_in_channels + res_skip_channels) (out_channels a)
      in case new_attention a (out_channels a) of
           Inl e \<Rightarrow> Inl e
         | Inr attn \<Rightarrow>
             (case new_motion_module get_motion_module a (out_channels a) of
                Inl e \<Rightarrow> Inl e
              | Inr mm \<Rightarrow> Inr (resnet, attn, mm)))"

definition CrossAttnUpBlock3D_init ::
  "(int \<Rightarrow> 'mt \<Rightarrow> 'mk \<Rightarrow> error + 'mm) \<Rightarrow> ('hp, 'mt, 'mk) block_args \<Rightarrow> error + ('hp, 'mm) block" where
  "CrossAttnUpBlock3D_init get_motion_module a =
     (case for_each (CrossAttnUpBlock3D_layer get_motion_module a) (py_range (num_layers a)) of
        Inl e \<Rightarrow> Inl e
      | Inr layers \<Rightarrow>
          Inr \<lparr>has_cross_attention = Some True,
               self_attn_num_head_channels = Some (attn_num_head_channels a),
               resnets = map fst layers,
               attentions = map (fst \<circ> snd) layers,
               motion_modules = map (snd \<circ> snd) layers,
               downsamplers = None,
               upsamplers = new_upsamplers a,
               gradient_checkpointing = Some False,
               training = True,
               lora_scale = None,
               motion_lora_scale = None\<rparr>)"

definition UpBlock3D_layer ::
  "(int \<Rightarrow> 'mt \<Rightarrow> 'mk \<Rightarrow> error + 'mm) \<Rightarrow> ('hp, 'mt, 'mk) block_args \<Rightarrow> int
     \<Rightarrow> error + ('hp ResnetBlock2D \<times> 'mm option)" where
  "UpBlock3D_layer get_motion_module a i =
     (let res_skip_channels = (if i = num_layers a - 1 then in_channels a else out_channels a);
          resnet_in_channels = (if i = 0 then prev_output_channel a else out_channels a);
          resnet = new_resnet a (resnet_in_channels + res_skip_channels) (out_channels a)
      in case new_motion_module get_motion_module a (out_channels a) of
           Inl e \<Rightarrow> Inl e
         | Inr mm \<Rightarrow> Inr (resnet, mm))"

definition UpBlock3D_init ::
  "(int \<Rightarrow> 'mt \<Rightarrow> 'mk \<Rightarrow> error + 'mm) \<Rightarrow> ('hp, 'mt, 'mk) block_args \<Rightarrow> error + ('hp, 'mm) block" where
  "UpBlock3D_init get_motion_module a =
     (case for_each (UpBlock3D_layer get_motion_module a) (py_range (num_layers a)) of
        Inl e \<Rightarrow> Inl e
      | Inr layers \<Rightarrow>
          Inr \<lparr>has_cross_attention = None,
               self_attn_num_head_channels = None,
               resnets = map fst layers,
               attentions = [],
               motion_modules = map snd layers,
               downsamplers = None,
               upsamplers = new_upsamplers a,
               gradient_checkpointing = Some False,
               training = True,
               lora_scale = None,
               motion_lora_scale = None\<rparr>)"

subsection \<open>\<^verbatim>\<open>UNetMidBlock3DCrossAttn.__init__\<close>\<close>

text \<open>
  \<^verbatim>\<open>resnet_groups\<close> defaults to \<^verbatim>\<open>min(in_channels // 4, 32)\<close>; one resnet is made before
  the loop, and each iteration adds an attention, a motion-module slot and a resnet.
\<close>

definition UNetMidBlock3DCrossAttn_layer ::
  "(int \<Rightarrow> 'mt \<Rightarrow> 'mk \<Rightarrow> error + 'mm) \<Rightarrow> ('hp, 'mt, 'mk) block_args \<Rightarrow> int
     \<Rightarrow> error + ('hp Transformer2DModel \<times> 'mm option \<times> 'hp ResnetBlock2D)" where
  "UNetMidBlock3DCrossAttn_layer get_motion_module a i =
     (case new_attention a (in_channels a) of
        Inl e \<Rightarrow> Inl e
      | Inr attn \<Rightarrow>
          (case new_motion_module get_motion_module a (in_channels a) of
             Inl e \<Rightarrow> Inl e
           | Inr mm \<Rightarrow> Inr (attn, mm, new_resnet a (in_channels a) (in_channels a))))"

definition UNetMidBlock3DCrossAttn_init ::
  "(int \<Rightarrow> 'mt \<Rightarrow> 'mk \<Rightarrow> error + 'mm) \<Rightarrow> ('hp, 'mt, 'mk) block_args \<Rightarrow> error + ('hp, 'mm) block" where
  "UNetMidBlock3DCrossAttn_init get_motion_module a0 =
     (let a = a0\<lparr>resnet_groups :=
                   Some (case resnet_groups a0 of Some g \<Rightarrow> g | None \<Rightarrow> min (in_channels a0 div 4) 32)\<rparr>
      in case for_each (UNetMidBlock3DCrossAttn_layer get_motion_module a) (py_range (num_layers a)) of
           Inl e \<Rightarrow> Inl e
         | Inr layers \<Rightarrow>
             Inr \<lparr>has_cross_attention = Some True,
                  self_attn_num_head_channels = Some (attn_num_head_channels a),
                  resnets = new_resnet a (in_channels a) (in_channels a) # map (snd \<circ> snd) layers,
                  attentions = map fst layers,
                  motion_modules = map (fst \<circ> snd) layers,
                  downsamplers = None,
                  upsamplers = None,
                  gradient_checkpointing = None,
                  training = True,
                  lora_scale = None,
                  motion_lora_scale = None\<rparr>)"

subsection \<open>The factories \<^verbatim>\<open>get_down_block\<close> and \<^verbatim>\<open>get_up_block\<close>\<close>

text \<open>\<^verbatim>\<open>t[7:] if t.startswith("UNetRes") else t\<close>\<close>

definition strip_UNetRes :: "string \<Rightarrow> string" where
  "strip_UNetRes t = (if take 7 t = ''UNetRes'' then drop 7 t else t)"

definition get_down_block ::
  "(int \<Rightarrow> 'mt \<Rightarrow> 'mk \<Rightarrow> error + 'mm) \<Rightarrow> string \<Rightarrow> ('hp, 'mt, 'mk) block_args \<Rightarrow> error + ('hp, 'mm) block" where
  "get_down_block get_motion_module down_block_type a =
     (let down_block_type = strip_UNetRes down_block_type
      in if down_block_type = ''DownBlock3D'' then DownBlock3D_init get_motion_module a
         else if down_block_type = ''CrossAttnDownBlock3D'' then
           (if cross_attention_dim a = None then Inl ValueError
            else CrossAttnDownBlock3D_init get_motion_module a)
         else Inl ValueError)"

definition get_up_block ::
  "(int \<Rightarrow> 'mt \<Rightarrow> 'mk \<Rightarrow> error + 'mm) \<Rightarrow> string \<Rightarrow> ('hp, 'mt, 'mk) block_args \<Rightarrow> error + ('hp, 'mm) block" where
  "get_up_block get_motion_module up_block_type a =
     (let up_block_type = strip_UNetRes up_block_type
      in if up_block_type = ''UpBlock3D'' then UpBlock3D_init get_motion_module a
         else if up_block_type = ''CrossAttnUpBlock3D'' then
           (if cross_attention_dim a = None then Inl ValueError
            else CrossAttnUpBlock3D_init get_motion_module a)
         else Inl ValueError)"


section \<open>Forward calls\<close>

text \<open>
  What the operator instances compute is given by a \<open>backend\<close>: one function per
  class of operator, each of which may raise. \<open>attn_forward\<close> returns the
  \<^verbatim>\<open>.sample\<close> of the attention's output. The operators receive the content of the
  configuration dictionary at the time of the call and do not write to the store.
\<close>

record ('a, 'hp, 'mm) backend =
  resnet_forward :: "'hp ResnetBlock2D \<Rightarrow> 'a tensor \<Rightarrow> 'a tensor \<Rightarrow> error + 'a tensor"
  attn_forward ::
    "'hp Transformer2DModel \<Rightarrow> 'a tensor \<Rightarrow> 'a tensor option \<Rightarrow> kwargs option \<Rightarrow> error + 'a tensor"
  motion_forward ::
    "'mm \<Rightarrow> 'a tensor \<Rightarrow> 'a tensor option \<Rightarrow> 'a tensor option \<Rightarrow> kwargs option \<Rightarrow> error + 'a tensor"
  downsample_forward :: "Downsample2D \<Rightarrow> 'a tensor \<Rightarrow> error + 'a tensor"
  upsample_forward :: "Upsample2D \<Rightarrow> 'a tensor \<Rightarrow> nat list option \<Rightarrow> error + 'a tensor"

text \<open>The arguments of a forward call; a down block ignores the last two.\<close>

record 'a forward_args =
  hidden_states :: "'a tensor"
  temb :: "'a tensor option"
  encoder_hidden_states :: "'a tensor option"
  cross_attention_kwargs :: kwarg
  motion_cross_attention_kwargs :: kwarg
  res_hidden_states_tuple :: "'a tensor list"
  upsample_size :: "nat list option"

text \<open>
  A forward call is observed through the events it produces, in order: each operator
  call (with the configuration it was given), each skip entry taken from
  \<^verbatim>\<open>res_hidden_states_tuple\<close>, each concatenation. A run is the events so far and
  either the exception that ended it or its value.
\<close>

datatype 'a event =
    ResnetCall
  | AttnCall "kwargs option"
  | MotionCall "kwargs option"
  | DownsampleCall
  | UpsampleCall
  | SkipPop "'a tensor"
  | CatCall

type_synonym ('a, 'x) run = "'a event list \<times> (error + 'x)"

definition ret :: "'x \<Rightarrow> ('a, 'x) run" where
  "ret x = ([], Inr x)"

definition raise :: "error \<Rightarrow> ('a, 'x) run" where
  "raise e = ([], Inl e)"

definition lift :: "error + 'x \<Rightarrow> ('a, 'x) run" where
  "lift r = ([], r)"

definition call :: "'a event \<Rightarrow> error + 'x \<Rightarrow> ('a, 'x) run" where
  "call ev r = ([ev], r)"

definition bind_run :: "('a, 'x) run \<Rightarrow> ('x \<Rightarrow> ('a, 'y) run) \<Rightarrow> ('a, 'y) run" where
  "bind_run m f =
     (case m of
        (evs, Inl e) \<Rightarrow> (evs, Inl e)
      | (evs, Inr x) \<Rightarrow> (case f x of (evs', r) \<Rightarrow> (evs @ evs', r)))"

text \<open>\<^verbatim>\<open>for l in ls: body\<close>, on the local variables \<open>s\<close> the body assigns.\<close>

fun for_loop :: "('l \<Rightarrow> 's \<Rightarrow> ('a, 's) run) \<Rightarrow> 'l list \<Rightarrow> 's \<Rightarrow> ('a, 's) run" where
  "for_loop body [] s = ret s"
| "for_loop body (l # ls) s = bind_run (body l s) (for_loop body ls)"

text \<open>
  The three lines around every 2D operator:
  \<^verbatim>\<open>rearrange(h, "b c f h w -> (b f) c h w")\<close>, the operator,
  \<^verbatim>\<open>rearrange(h, "(b f) c h w -> b c f h w", f=video_length)\<close>.
\<close>

definition per_frame ::
  "nat \<Rightarrow> 'a event \<Rightarrow> ('a tensor \<Rightarrow> error + 'a tensor) \<Rightarrow> 'a tensor \<Rightarrow> ('a, 'a tensor) run" where
  "per_frame video_length ev operator h =
     bind_run (lift (rearrange_bcfhw_to_bfchw h)) (\<lambda>h.
     bind_run (call ev (operator h)) (\<lambda>h.
     lift (rearrange_bfchw_to_bcfhw h video_length)))"

text \<open>
  \<^verbatim>\<open>if self.training and self.gradient_checkpointing: raise NotImplementedError\<close>;
  the statements after the \<^verbatim>\<open>raise\<close> in that branch are never reached.
\<close>

definition checkpointing_guard :: "('hp, 'mm) block \<Rightarrow> ('a, unit) run" where
  "checkpointing_guard blk =
     (if training blk then
        (case gradient_checkpointing blk of
           None \<Rightarrow> raise AttributeError
         | Some g \<Rightarrow> if g then raise NotImplementedError else ret ())
      else ret ())"

text \<open>\<^verbatim>\<open>if motion_module is not None: hidden_states = motion_module(...)\<close>\<close>

definition motion_step ::
  "('a, 'hp, 'mm) backend \<Rightarrow> 'a tensor option \<Rightarrow> 'a tensor option \<Rightarrow> kwargs option
     \<Rightarrow> 'mm option \<Rightarrow> 'a tensor \<Rightarrow> ('a, 'a tensor) run" where
  "motion_step be t_emb ehs mca motion_module h =
     (case motion_module of
        None \<Rightarrow> ret h
      | Some m \<Rightarrow> call (MotionCall mca) (motion_forward be m h t_emb ehs mca))"

subsection \<open>\<^verbatim>\<open>CrossAttnDownBlock3D.forward\<close> and \<^verbatim>\<open>DownBlock3D.forward\<close>\<close>

text \<open>
  One iteration without the bookkeeping of the loop: the checkpointing guard, then the
  operators of the layer on the hidden state. The configurations \<open>ca\<close> and \<open>mca\<close>
  are the contents of \<^verbatim>\<open>cross_attention_kwargs\<close> and
  \<^verbatim>\<open>motion_cross_attention_kwargs\<close> after the adapter-scale statements.
  \<^verbatim>\<open>CrossAttnDownBlock3D\<close> and \<^verbatim>\<open>CrossAttnUpBlock3D\<close> run the same statements
  (resnet, attention, motion module), and so do \<^verbatim>\<open>DownBlock3D\<close> and \<^verbatim>\<open>UpBlock3D\<close>
  (resnet, motion module).
\<close>

definition layer_cross_attn ::
  "('a, 'hp, 'mm) backend \<Rightarrow> ('hp, 'mm) block \<Rightarrow> nat \<Rightarrow> 'a tensor option \<Rightarrow> 'a tensor
     \<Rightarrow> 'a tensor option \<Rightarrow> kwargs option \<Rightarrow> kwargs option
     \<Rightarrow> 'hp ResnetBlock2D \<times> 'hp Transformer2DModel \<times> 'mm option
     \<Rightarrow> 'a tensor \<Rightarrow> ('a, 'a tensor) run" where
  "layer_cross_attn be blk video_length t_emb temb_repeated ehs ca mca layer h =
     (case layer of
        (resnet, attn, motion_module) \<Rightarrow>
          bind_run (checkpointing_guard blk) (\<lambda>_.
          bind_run (per_frame video_length ResnetCall
                      (\<lambda>x. resnet_forward be resnet x temb_repeated) h) (\<lambda>h.
          bind_run (per_frame video_length (AttnCall ca)
                      (\<lambda>x. attn_forward be attn x ehs ca) h) (\<lambda>h.
          motion_step be t_emb ehs mca motion_module h))))"

definition layer_plain ::
  "('a, 'hp, 'mm) backend \<Rightarrow> ('hp, 'mm) block \<Rightarrow> nat \<Rightarrow> 'a tensor option \<Rightarrow> 'a tensor
     \<Rightarrow> 'a tensor option \<Rightarrow> kwargs option
     \<Rightarrow> 'hp ResnetBlock2D \<times> 'mm option
     \<Rightarrow> 'a tensor \<Rightarrow> ('a, 'a tensor) run" where
  "layer_plain be blk video_length t_emb temb_repeated ehs mca layer h =
     (case layer of
        (resnet, motion_module) \<Rightarrow>
          bind_run (checkpointing_guard blk) (\<lambda>_.
          bind_run (per_frame video_length ResnetCall
                      (\<lambda>x. resnet_forward be resnet x temb_repeated) h) (\<lambda>h.
          motion_step be t_emb ehs mca motion_module h)))"

text \<open>
  The loop body of a down block works on \<open>(hidden_states, output_states)\<close>: the
  layer, then \<^verbatim>\<open>output_states += (hidden_states,)\<close>.
\<close>

definition down_body ::
  "('l \<Rightarrow> 'a tensor \<Rightarrow> ('a, 'a tensor) run) \<Rightarrow> 'l
     \<Rightarrow> 'a tensor \<times> 'a tensor list \<Rightarrow> ('a, 'a tensor \<times> 'a tensor list) run" where
  "down_body layer l st =
     (case st of
        (h, output_states) \<Rightarrow>
          bind_run (layer l h) (\<lambda>h. ret (h, output_states @ [h])))"

text \<open>
  \<^verbatim>\<open>if self.downsamplers is not None:\<close> every downsampler is applied per frame, and
  the result is appended to \<^verbatim>\<open>output_states\<close> once.
\<close>

definition downsample_tail ::
  "('a, 'hp, 'mm) backend \<Rightarrow> nat \<Rightarrow> Downsample2D list option
     \<Rightarrow> 'a tensor \<times> 'a tensor list \<Rightarrow> ('a, 'a tensor \<times> 'a tensor list) run" where
  "downsample_tail be video_length samplers st =
     (case st of
        (h, output_states) \<Rightarrow>
          (case samplers of
             None \<Rightarrow> ret (h, output_states)
           | Some ds \<Rightarrow>
               bind_run (for_loop (\<lambda>d. per_frame video_length DownsampleCall (downsample_forward be d)) ds h)
                 (\<lambda>h. ret (h, output_states @ [h]))))"

definition CrossAttnDownBlock3D_forward ::
  "('a, 'hp, 'mm) backend \<Rightarrow> ('hp, 'mm) block \<Rightarrow> heap \<Rightarrow> 'a forward_args
     \<Rightarrow> heap \<times> ('a, 'a tensor \<times> 'a tensor list) run" where
  "CrossAttnDownBlock3D_forward be blk hp args =
     (case shape_2 (hidden_states args) of
        Inl e \<Rightarrow> (hp, raise e)
      | Inr video_length \<Rightarrow>
     (case repeat_bc_to_bfc (temb args) video_length of
        Inl e \<Rightarrow> (hp, raise e)
      | Inr temb_repeated \<Rightarrow>
     (case set_lora_scale_in_place hp (lora_scale blk)
             (resolve (Some CrossAttnDownBlock3D_default_cross_attention_kwargs)
                (cross_attention_kwargs args)) of
        Inl e \<Rightarrow> (hp, raise e)
      | Inr (hp1, cak) \<Rightarrow>
     (case set_motion_lora_scale hp1 (motion_lora_scale blk)
             (resolve (Some CrossAttnDownBlock3D_default_motion_cross_attention_kwargs)
                (motion_cross_attention_kwargs args)) of
        (hp2, mcak) \<Rightarrow>
          (hp2,
           bind_run
             (for_loop
                (down_body
                   (layer_cross_attn be blk video_length (temb args) temb_repeated
                      (encoder_hidden_states args) (deref hp2 cak) (deref hp2 mcak)))
                (zip (resnets blk) (zip (attentions blk) (motion_modules blk)))
                (hidden_states args, []))
             (downsample_tail be video_length (downsamplers blk)))))))"

definition DownBlock3D_forward ::
  "('a, 'hp, 'mm) backend \<Rightarrow> ('hp, 'mm) block \<Rightarrow> heap \<Rightarrow> 'a forward_args
     \<Rightarrow> heap \<times> ('a, 'a tensor \<times> 'a tensor list) run" where
  "DownBlock3D_forward be blk hp args =
     (case shape_2 (hidden_states args) of
        Inl e \<Rightarrow> (hp, raise e)
      | Inr video_length \<Rightarrow>
     (case repeat_bc_to_bfc (temb args) video_length of
        Inl e \<Rightarrow> (hp, raise e)
      | Inr temb_repeated \<Rightarrow>
     (case set_motion_lora_scale hp (motion_lora_scale blk)
             (resolve (Some DownBlock3D_default_motion_cross_attention_kwargs)
                (motion_cross_attention_kwargs args)) of
        (hp1, mcak) \<Rightarrow>
          (hp1,
           bind_run
             (for_loop
                (down_body
                   (layer_plain be blk video_length (temb args) temb_repeated
                      (encoder_hidden_states args) (deref hp1 mcak)))
                (zip (resnets blk) (motion_modules blk))
                (hidden_states args, []))
             (downsample_tail be video_length (downsamplers blk))))))"

subsection \<open>\<^verbatim>\<open>CrossAttnUpBlock3D.forward\<close> and \<^verbatim>\<open>UpBlock3D.forward\<close>\<close>

text \<open>
  The loop works on \<open>(hidden_states, res_hidden_states_tuple)\<close>:
  \<^verbatim>\<open>res_hidden_states_tuple[-1]\<close> raises \<^verbatim>\<open>IndexError\<close> on the empty tuple, then the
  tuple loses its last entry and the entry is concatenated to the hidden state; the
  checkpointing guard comes after the concatenation.
\<close>

definition pop_res_hidden_states ::
  "'a tensor \<times> 'a tensor list \<Rightarrow> ('a, 'a tensor \<times> 'a tensor list) run" where
  "pop_res_hidden_states st =
     (case st of
        (h, res_tuple) \<Rightarrow>
          if res_tuple = [] then raise IndexError
          else
            bind_run (call (SkipPop (last res_tuple)) (Inr (last res_tuple)))
              (\<lambda>res_hidden_states.
            bind_run (call CatCall (torch_cat_dim1 h res_hidden_states)) (\<lambda>h.
            ret (h, butlast res_tuple))))"

text \<open>The loop body of an up block: the pop and the concatenation, then the layer.\<close>

definition up_body ::
  "('l \<Rightarrow> 'a tensor \<Rightarrow> ('a, 'a tensor) run) \<Rightarrow> 'l
     \<Rightarrow> 'a tensor \<times> 'a tensor list \<Rightarrow> ('a, 'a tensor \<times> 'a tensor list) run" where
  "up_body layer l st =
     bind_run (pop_res_hidden_states st) (\<lambda>(h, res_tuple).
     bind_run (layer l h) (\<lambda>h. ret (h, res_tuple)))"

text \<open>
  \<^verbatim>\<open>if self.upsamplers is not None:\<close> every upsampler is applied per frame. The tail
  keeps the second component, the local \<^verbatim>\<open>res_hidden_states_tuple\<close> as the loop left it.
\<close>

definition upsample_tail ::
  "('a, 'hp, 'mm) backend \<Rightarrow> nat \<Rightarrow> nat list option \<Rightarrow> Upsample2D list option
     \<Rightarrow> 'a tensor \<times> 'a tensor list \<Rightarrow> ('a, 'a tensor \<times> 'a tensor list) run" where
  "upsample_tail be video_length target_size samplers st =
     (case st of
        (h, res_tuple) \<Rightarrow>
          (case samplers of
             None \<Rightarrow> ret (h, res_tuple)
           | Some us \<Rightarrow>
               bind_run
                 (for_loop (\<lambda>u. per_frame video_length UpsampleCall (\<lambda>x. upsample_forward be u x target_size)) us h)
                 (\<lambda>h. ret (h, res_tuple))))"

text \<open>
  The \<open>_locals\<close> functions return the hidden state together with the final value of
  the local variable \<^verbatim>\<open>res_hidden_states_tuple\<close>; the forward methods return the
  hidden state alone.
\<close>

definition CrossAttnUpBlock3D_forward_locals ::
  "('a, 'hp, 'mm) backend \<Rightarrow> ('hp, 'mm) block \<Rightarrow> heap \<Rightarrow> 'a forward_args
     \<Rightarrow> heap \<times> ('a, 'a tensor \<times> 'a tensor list) run" where
  "CrossAttnUpBlock3D_forward_locals be blk hp args =
     (case shape_2 (hidden_states args) of
        Inl e \<Rightarrow> (hp, raise e)
      | Inr video_length \<Rightarrow>
     (case repeat_bc_to_bfc (temb args) video_length of
        Inl e \<Rightarrow> (hp, raise e)
      | Inr temb_repeated \<Rightarrow>
     (case set_lora_scale_new_dict hp (lora_scale blk) (resolve None (cross_attention_kwargs args)) of
        (hp1, cak) \<Rightarrow>
     (case set_motion_lora_scale hp1 (motion_lora_scale blk)
             (resolve (Some CrossAttnUpBlock3D_default_motion_cross_attention_kwargs)
                (motion_cross_attention_kwargs args)) of
        (hp2, mcak) \<Rightarrow>
          (hp2,
           bind_run
             (for_loop
                (up_body
                   (layer_cross_attn be blk video_length (temb args) temb_repeated
                      (encoder_hidden_states args) (deref hp2 cak) (deref hp2 mcak)))
                (zip (resnets blk) (zip (attentions blk) (motion_modules blk)))
                (hidden_states args, res_hidden_states_tuple args))
             (upsample_tail be video_length (upsample_size args) (upsamplers blk)))))))"

definition UpBlock3D_forward_locals ::
  "('a, 'hp, 'mm) backend \<Rightarrow> ('hp, 'mm) block \<Rightarrow> heap \<Rightarrow> 'a forward_args
     \<Rightarrow> heap \<times> ('a, 'a tensor \<times> 'a tensor list) run" where
  "UpBlock3D_forward_locals be blk hp args =
     (case shape_2 (hidden_states args) of
        Inl e \<Rightarrow> (hp, raise e)
      | Inr video_length \<Rightarrow>
     (case repeat_bc_to_bfc (temb args) video_length of
        Inl e \<Rightarrow> (hp, raise e)
      | Inr temb_repeated \<Rightarrow>
     (case set_motion_lora_scale hp (motion_lora_scale blk)
             (resolve (Some UpBlock3D_default_motion_cross_attention_kwargs)
                (motion_cross_attention_kwargs args)) of
        (hp1, mcak) \<Rightarrow>
          (hp1,
           bind_run
             (for_loop
                (up_body
                   (layer_plain be blk video_length (temb args) temb_repeated
                      (encoder_hidden_states args) (deref hp1 mcak)))
                (zip (resnets blk) (motion_modules blk))
                (hidden_states args, res_hidden_states_tuple args))
             (upsample_tail be video_length (upsample_size args) (upsamplers blk))))))"

definition returning_first :: "heap \<times> ('a, 'x \<times> 'y) run \<Rightarrow> heap \<times> ('a, 'x) run" where
  "returning_first r = (case r of (hp, evs, v) \<Rightarrow> (hp, evs, map_sum id fst v))"

definition CrossAttnUpBlock3D_forward ::
  "('a, 'hp, 'mm) backend \<Rightarrow> ('hp, 'mm) block \<Rightarrow> heap \<Rightarrow> 'a forward_args
     \<Rightarrow> heap \<times> ('a, 'a tensor) run" where
  "CrossAttnUpBlock3D_forward be blk hp args =
     returning_first (CrossAttnUpBlock3D_forward_locals be blk hp args)"

definition UpBlock3D_forward ::
  "('a, 'hp, 'mm) backend \<Rightarrow> ('hp, 'mm) block \<Rightarrow> heap \<Rightarrow> 'a forward_args
     \<Rightarrow> heap \<times> ('a, 'a tensor) run" where
  "UpBlock3D_forward be blk hp args =
     returning_first (UpBlock3D_forward_locals be blk hp args)"

subsection \<open>\<^verbatim>\<open>UNetMidBlock3DCrossAttn.forward\<close>\<close>

text \<open>
  \<^verbatim>\<open>self.resnets[0]\<close> is applied before the adapter-scale statements; the loop runs
  over \<^verbatim>\<open>zip(self.attentions, self.resnets[1:], self.motion_modules)\<close>. The method
  never reads \<^verbatim>\<open>gradient_checkpointing\<close> or \<^verbatim>\<open>training\<close>.
\<close>

definition UNetMidBlock3DCrossAttn_body ::
  "('a, 'hp, 'mm) backend \<Rightarrow> nat \<Rightarrow> 'a tensor option \<Rightarrow> 'a tensor
     \<Rightarrow> 'a tensor option \<Rightarrow> kwargs option \<Rightarrow> kwargs option
     \<Rightarrow> 'hp Transformer2DModel \<times> 'hp ResnetBlock2D \<times> 'mm option
     \<Rightarrow> 'a tensor \<Rightarrow> ('a, 'a tensor) run" where
  "UNetMidBlock3DCrossAttn_body be video_length t_emb temb_repeated ehs ca mca layer h =
     (case layer of
        (attn, resnet, motion_module) \<Rightarrow>
          bind_run (per_frame video_length (AttnCall ca)
                      (\<lambda>x. attn_forward be attn x ehs ca) h) (\<lambda>h.
          bind_run (motion_step be t_emb ehs mca motion_module h) (\<lambda>h.
          per_frame video_length ResnetCall (\<lambda>x. resnet_forward be resnet x temb_repeated) h)))"

definition UNetMidBlock3DCrossAttn_forward ::
  "('a, 'hp, 'mm) backend \<Rightarrow> ('hp, 'mm) block \<Rightarrow> heap \<Rightarrow> 'a forward_args
     \<Rightarrow> heap \<times> ('a, 'a tensor) run" where
  "UNetMidBlock3DCrossAttn_forward be blk hp args =
     (case shape_2 (hidden_states args) of
        Inl e \<Rightarrow> (hp, raise e)
      | Inr video_length \<Rightarrow>
     (case repeat_bc_to_bfc (temb args) video_length of
        Inl e \<Rightarrow> (hp, raise e)
      | Inr temb_repeated \<Rightarrow>
     (case resnets blk of
        [] \<Rightarrow> (hp, raise IndexError)
      | resnet0 # _ \<Rightarrow>
     (case per_frame video_length ResnetCall (\<lambda>x. resnet_forward be resnet0 x temb_repeated)
             (hidden_states args) of
        (evs, Inl e) \<Rightarrow> (hp, evs, Inl e)
      | (evs, Inr h) \<Rightarrow>
     (case set_lora_scale_new_dict hp (lora_scale blk) (resolve None (cross_attention_kwargs args)) of
        (hp1, cak) \<Rightarrow>
     (case set_motion_lora_scale hp1 (motion_lora_scale blk)
             (resolve None (motion_cross_attention_kwargs args)) of
        (hp2, mcak) \<Rightarrow>
          (hp2,
           bind_run (evs, Inr h)
             (for_loop
                (UNetMidBlock3DCrossAttn_body be video_length (temb args) temb_repeated
                   (encoder_hidden_states args) (deref hp2 cak) (deref hp2 mcak))
                (zip (attentions blk) (zip (tl (resnets blk)) (motion_modules blk)))))))))))"


section \<open>Observers for the properties\<close>

text \<open>
  The skip entries a run took, in the order it took them; a block cut to its first
  \<open>n\<close> layers, without resampler; blocks that differ only in the attributes set
  after construction, and blocks that agree on those attributes; and a run of an
  up-block loop with \<open>pre\<close> put in front of the
  entries it left.
\<close>

primrec pops :: "'a event list \<Rightarrow> 'a tensor list" where
  "pops [] = []"
| "pops (ev # evs) = (case ev of SkipPop x \<Rightarrow> x # pops evs | _ \<Rightarrow> pops evs)"

definition first_layers :: "nat \<Rightarrow> ('hp, 'mm) block \<Rightarrow> ('hp, 'mm) block" where
  "first_layers n blk =
     blk\<lparr>resnets := take n (resnets blk), attentions := take n (attentions blk),
         motion_modules := take n (motion_modules blk), downsamplers := None, upsamplers := None\<rparr>"

definition same_layers :: "('hp, 'mm) block \<Rightarrow> ('hp, 'mm) block \<Rightarrow> bool" where
  "same_layers blk blk0 =
     (resnets blk = resnets blk0 \<and> attentions blk = attentions blk0 \<and>
      motion_modules blk = motion_modules blk0 \<and> downsamplers blk = downsamplers blk0 \<and>
      upsamplers blk = upsamplers blk0)"

definition same_attributes :: "('hp, 'mm) block \<Rightarrow> ('hp, 'mm) block \<Rightarrow> bool" where
  "same_attributes blk2 blk =
     (training blk2 = training blk \<and> gradient_checkpointing blk2 = gradient_checkpointing blk \<and>
      lora_scale blk2 = lora_scale blk \<and> motion_lora_scale blk2 = motion_lora_scale blk)"

definition with_prefix :: "'y list \<Rightarrow> ('a, 'x \<times> 'y list) run \<Rightarrow> ('a, 'x \<times> 'y list) run" where
  "with_prefix pre r =
     (case r of
        (evs, Inl e) \<Rightarrow> (evs, Inl e)
      | (evs, Inr (h, rest)) \<Rightarrow> (evs, Inr (h, pre @ rest)))"


section \<open>Concrete instances\<close>

text \<open>
  Small inputs on which the theorems below are instantiated: constructor arguments
  with the channel widths of the specification's example, a motion-module factory
  that always succeeds, a backend whose operators return their input, and tensors
  with two frames.
\<close>

definition ex_args :: "(unit, unit, unit) block_args" where
  "ex_args =
     \<lparr>num_layers = 3, in_channels = 64, out_channels = 128, prev_output_channel = 256,
      temb_channels = 16, add_downsample = True, add_upsample = True,
      resnet_groups = Some 32, attn_num_head_channels = 8, cross_attention_dim = Some 768,
      downsample_padding = Some 1, dual_cross_attention = False, use_motion_module = True,
      motion_module_type = (), motion_module_kwargs = (), hyper = ()\<rparr>"

definition ex_get_motion_module :: "int \<Rightarrow> unit \<Rightarrow> unit \<Rightarrow> error + int" where
  "ex_get_motion_module channels t k = Inr channels"

definition ex_backend :: "(nat, unit, int) backend" where
  "ex_backend =
     \<lparr>resnet_forward = (\<lambda>r x t. Inr x),
      attn_forward = (\<lambda>a x e c. Inr x),
      motion_forward = (\<lambda>m x t e c. Inr x),
      downsample_forward = (\<lambda>d x. Inr x),
      upsample_forward = (\<lambda>u x s. Inr x)\<rparr>"

definition ex_hidden :: "nat tensor" where
  "ex_hidden = \<lparr>shape = [1, 1, 2, 1, 1], data = [7, 8]\<rparr>"

definition ex_temb :: "nat tensor" where
  "ex_temb = \<lparr>shape = [1, 1], data = [5]\<rparr>"

definition ex_call :: "nat forward_args" where
  "ex_call =
     \<lparr>hidden_states = ex_hidden, temb = Some ex_temb, encoder_hidden_states = None,
      cross_attention_kwargs = Omitted, motion_cross_attention_kwargs = Omitted,
      res_hidden_states_tuple = [], upsample_size = None\<rparr>"


section \<open>Properties of the reshape protocol\<close>

lemma ravel_less:
  "list_all2 (<) is ds \<Longrightarrow> ravel ds is < prod_list ds"
proof (induction "is" ds rule: list_all2_induct)
  case Nil
  then show ?case by simp
next
  case (Cons i "is" d ds)
  have "i * prod_list ds + ravel ds is < i * prod_list ds + prod_list ds"
    using Cons.IH by simp
  also have "\<dots> = Suc i * prod_list ds" by simp
  also have "\<dots> \<le> d * prod_list ds"
    using Cons.hyps(1) by (intro mult_le_mono1) simp
  finally show ?case by simp
qed

lemma unravel_ravel:
  "list_all2 (<) is ds \<Longrightarrow> unravel ds (ravel ds is) = is"
proof (induction "is" ds rule: list_all2_induct)
  case Nil
  then show ?case by simp
next
  case (Cons i "is" d ds)
  have r: "ravel ds is < prod_list ds"
    using Cons.hyps(2) by (rule ravel_less)
  then show ?case using Cons.IH by simp
qed

lemma ravel_unravel:
  "j < prod_list ds \<Longrightarrow> ravel ds (unravel ds j) = j"
proof (induction ds arbitrary: j)
  case Nil
  then show ?case by simp
next
  case (Cons d ds)
  have "0 < prod_list ds"
    using Cons.prems by (cases "prod_list ds = 0") auto
  then have "j mod prod_list ds < prod_list ds" by simp
  then show ?case using Cons.IH by simp
qed

lemma unravel_bounds:
  "j < prod_list ds \<Longrightarrow> list_all2 (<) (unravel ds j) ds"
proof (induction ds arbitrary: j)
  case Nil
  then show ?case by simp
next
  case (Cons d ds)
  have pos: "0 < prod_list ds"
    using Cons.prems by (cases "prod_list ds = 0") auto
  have "j div prod_list ds < d"
    using Cons.prems pos by (simp add: less_mult_imp_div_less mult.commute)
  moreover have "j mod prod_list ds < prod_list ds" using pos by simp
  ultimately show ?case using Cons.IH by simp
qed

lemma roundtrip_index:
  assumes j: "j < prod_list [B, C, F, H, W]"
  obtains b c k h w where
    "unravel [B, C, F, H, W] j = [b, c, k, h, w]"
    "ravel [B * F, C, H, W] [b * F + k, c, h, w] < prod_list [B * F, C, H, W]"
    "unravel [B * F, C, H, W] (ravel [B * F, C, H, W] [b * F + k, c, h, w]) = [b * F + k, c, h, w]"
    "ravel [B, C, F, H, W] [(b * F + k) div F, c, (b * F + k) mod F, h, w] = j"
proof -
  obtain b c k h w where u: "unravel [B, C, F, H, W] j = [b, c, k, h, w]"
    by simp
  have bnd: "list_all2 (<) [b, c, k, h, w] [B, C, F, H, W]"
    using unravel_bounds[OF j] u by simp
  then have lt: "b < B" "c < C" "k < F" "h < H" "w < W" by simp_all
  have "b * F + k < b * F + F" using lt by simp
  also have "\<dots> = Suc b * F" by simp
  also have "\<dots> \<le> B * F" using lt by (intro mult_le_mono1) simp
  finally have n: "b * F + k < B * F" .
  have bnd2: "list_all2 (<) [b * F + k, c, h, w] [B * F, C, H, W]"
    using n lt by simp
  have r: "ravel [B, C, F, H, W] [b, c, k, h, w] = j"
    using ravel_unravel[OF j] unfolding u .
  have dm: "(b * F + k) div F = b" "(b * F + k) mod F = k" using lt by simp_all
  show thesis
    using that[OF u ravel_less[OF bnd2] unravel_ravel[OF bnd2]] r dm by simp
qed

text \<open>
  Claim C1, as amended. For every well-formed five-axis tensor \<open>x\<close> of shape
  \<open>(B, C, F, H, W)\<close> with at least one frame (\<open>0 < F\<close>), flattening the frames
  with \<^verbatim>\<open>"b c f h w -> (b f) c h w"\<close> succeeds and unflattening the result with
  \<^verbatim>\<open>"(b f) c h w -> b c f h w"\<close> and \<open>f = F\<close> returns \<open>x\<close> itself: the same shape and
  the same element at every position.
\<close>

theorem rearrange_round_trip:
  assumes wf: "wf_tensor x" and sh: "shape x = [B, C, F, H, W]" and F: "0 < F"
  shows "\<exists>y. rearrange_bcfhw_to_bfchw x = Inr y \<and> rearrange_bfchw_to_bcfhw y F = Inr x"
proof -
  define g where "g = (\<lambda>i. case unravel [B * F, C, H, W] i of
                                   [n, c, h, w] \<Rightarrow> data x ! ravel [B, C, F, H, W] [n div F, c, n mod F, h, w]
                                 | _ \<Rightarrow> undefined)"
  define y where "y = \<lparr>shape = [B * F, C, H, W], data = map g [0..<prod_list [B * F, C, H, W]]\<rparr>"
  have fl: "rearrange_bcfhw_to_bfchw x = Inr y"
    by (simp add: rearrange_bcfhw_to_bfchw_def sh y_def g_def)
  have len: "length (data x) = prod_list [B, C, F, H, W]"
    using wf sh by (simp add: wf_tensor_def)
  have el: "(case unravel [B, C, F, H, W] j of
               [b, c, k, h, w] \<Rightarrow> data y ! ravel [B * F, C, H, W] [b * F + k, c, h, w]
             | _ \<Rightarrow> undefined) = data x ! j"
    if "j < prod_list [B, C, F, H, W]" for j
  proof -
    from roundtrip_index[OF that] obtain b c k h w where
      u: "unravel [B, C, F, H, W] j = [b, c, k, h, w]"
      and lt: "ravel [B * F, C, H, W] [b * F + k, c, h, w] < prod_list [B * F, C, H, W]"
      and u2: "unravel [B * F, C, H, W] (ravel [B * F, C, H, W] [b * F + k, c, h, w]) = [b * F + k, c, h, w]"
      and r: "ravel [B, C, F, H, W] [(b * F + k) div F, c, (b * F + k) mod F, h, w] = j"
      by blast
    have "data y ! ravel [B * F, C, H, W] [b * F + k, c, h, w]
            = g (ravel [B * F, C, H, W] [b * F + k, c, h, w])"
      using lt by (simp add: y_def del: ravel.simps unravel.simps prod_list.Cons)
    also have "\<dots> = data x ! j"
      unfolding g_def u2 using r by (simp del: ravel.simps unravel.simps prod_list.Cons)
    finally show ?thesis unfolding u by simp
  qed
  have "map (\<lambda>j. case unravel [B, C, F, H, W] j of
               [b, c, k, h, w] \<Rightarrow> data y ! ravel [B * F, C, H, W] [b * F + k, c, h, w]
             | _ \<Rightarrow> undefined) [0..<prod_list [B, C, F, H, W]]
        = map (\<lambda>j. data x ! j) [0..<length (data x)]"
    unfolding len by (rule map_cong) (simp_all add: el del: ravel.simps unravel.simps prod_list.Cons)
  also have "\<dots> = data x" by (rule map_nth)
  finally have d: "map (\<lambda>j. case unravel [B, C, F, H, W] j of
               [b, c, k, h, w] \<Rightarrow> data y ! ravel [B * F, C, H, W] [b * F + k, c, h, w]
             | _ \<Rightarrow> undefined) [0..<prod_list [B, C, F, H, W]] = data x" .
  have "rearrange_bfchw_to_bcfhw y F = Inr \<lparr>shape = [B, C, F, H, W], data = data x\<rparr>"
    unfolding rearrange_bfchw_to_bcfhw_def using F d
    by (simp add: y_def del: ravel.simps unravel.simps prod_list.Cons)
  also have "\<lparr>shape = [B, C, F, H, W], data = data x\<rparr> = x"
    using sh by simp
  finally show ?thesis using fl by blast
qed


theorem rearrange_round_trip_witness:
  "wf_tensor \<lparr>shape = [1, 2, 2, 1, 1], data = [10, 11, 20, 21 :: nat]\<rparr> \<and>
   (\<exists>y. rearrange_bcfhw_to_bfchw \<lparr>shape = [1, 2, 2, 1, 1], data = [10, 11, 20, 21 :: nat]\<rparr> = Inr y \<and>
        shape y = [2, 2, 1, 1] \<and>
        rearrange_bfchw_to_bcfhw y 2 = Inr \<lparr>shape = [1, 2, 2, 1, 1], data = [10, 11, 20, 21]\<rparr>)"
proof -
  have wf: "wf_tensor \<lparr>shape = [1, 2, 2, 1, 1], data = [10, 11, 20, 21 :: nat]\<rparr>"
    by (simp add: wf_tensor_def)
  from rearrange_round_trip[OF wf, of 1 2 2 1 1]
  obtain y where y: "rearrange_bcfhw_to_bfchw \<lparr>shape = [1, 2, 2, 1, 1], data = [10, 11, 20, 21 :: nat]\<rparr> = Inr y"
    "rearrange_bfchw_to_bcfhw y 2 = Inr \<lparr>shape = [1, 2, 2, 1, 1], data = [10, 11, 20, 21]\<rparr>"
    by auto
  have "shape y = [2, 2, 1, 1]"
    using y(1) by (auto simp: rearrange_bcfhw_to_bfchw_def)
  with wf y show ?thesis by (intro conjI exI[of _ y]) simp_all
qed

text \<open>
  Claim C1 as stated covers every frame count. A tensor with no frame, of shape
  \<open>(1, 1, 0, 1, 1)\<close>, flattens to the empty tensor of shape \<open>(0, 1, 1, 1)\<close>, from which
  the batch size cannot be recovered: unflattening with \<open>f = 0\<close> raises.
\<close>

theorem rearrange_round_trip_counterexample:
  "wf_tensor \<lparr>shape = [1, 1, 0, 1, 1], data = ([] :: nat list)\<rparr> \<and>
   rearrange_bcfhw_to_bfchw \<lparr>shape = [1, 1, 0, 1, 1], data = ([] :: nat list)\<rparr>
     = Inr \<lparr>shape = [0, 1, 1, 1], data = []\<rparr> \<and>
   rearrange_bfchw_to_bcfhw \<lparr>shape = [0, 1, 1, 1], data = ([] :: nat list)\<rparr> 0 = Inl BackendError"
  by (simp add: wf_tensor_def rearrange_bcfhw_to_bfchw_def rearrange_bfchw_to_bcfhw_def)

section \<open>Properties of the constructors\<close>

lemma for_each_list_all2:
  "for_each f xs = Inr ys \<Longrightarrow> list_all2 (\<lambda>x y. f x = Inr y) xs ys"
proof (induction xs arbitrary: ys)
  case Nil
  then show ?case by simp
next
  case (Cons x xs)
  then show ?case by (auto split: sum.splits)
qed

lemma for_each_map:
  assumes "for_each f xs = Inr ys" and "\<And>x y. f x = Inr y \<Longrightarrow> g y = k x"
  shows "map g ys = map k xs"
  using for_each_list_all2[OF assms(1)] assms(2)
  by (induction xs ys rule: list_all2_induct) auto

lemma UpBlock3D_init_resnets:
  assumes "UpBlock3D_init gmm a = Inr blk"
  shows "resnets blk =
           map (\<lambda>i. new_resnet a ((if i = 0 then prev_output_channel a else out_channels a)
                                   + (if i = num_layers a - 1 then in_channels a else out_channels a))
                       (out_channels a))
               (py_range (num_layers a))"
proof -
  obtain layers where l: "for_each (UpBlock3D_layer gmm a) (py_range (num_layers a)) = Inr layers"
    and b: "resnets blk = map fst layers"
    using assms by (auto simp: UpBlock3D_init_def split: sum.splits)
  show ?thesis unfolding b
    by (rule for_each_map[OF l]) (auto simp: UpBlock3D_layer_def Let_def split: sum.splits)
qed

lemma CrossAttnUpBlock3D_init_resnets:
  assumes "CrossAttnUpBlock3D_init gmm a = Inr blk"
  shows "resnets blk =
           map (\<lambda>i. new_resnet a ((if i = 0 then prev_output_channel a else out_channels a)
                                   + (if i = num_layers a - 1 then in_channels a else out_channels a))
                       (out_channels a))
               (py_range (num_layers a))"
proof -
  obtain layers where l: "for_each (CrossAttnUpBlock3D_layer gmm a) (py_range (num_layers a)) = Inr layers"
    and b: "resnets blk = map fst layers"
    using assms by (auto simp: CrossAttnUpBlock3D_init_def split: sum.splits)
  show ?thesis unfolding b
    by (rule for_each_map[OF l]) (auto simp: CrossAttnUpBlock3D_layer_def Let_def split: sum.splits)
qed

lemma py_range_nth: "0 \<le> i \<Longrightarrow> i < n \<Longrightarrow> py_range n ! nat i = i"
  by (simp add: py_range_def)

lemma length_py_range: "int (length (py_range n)) = max 0 n"
  by (simp add: py_range_def)

lemma py_range_numeral:
  "py_range 0 = []" "py_range 1 = [0]" "py_range 2 = [0, 1]" "py_range 3 = [0, 1, 2]"
  by (simp_all add: py_range_def numeral_2_eq_2 numeral_3_eq_3)

lemma ex_up: "\<exists>blk. UpBlock3D_init ex_get_motion_module ex_args = Inr blk"
  by (simp add: UpBlock3D_init_def ex_args_def py_range_numeral UpBlock3D_layer_def new_motion_module_def ex_get_motion_module_def)

lemma ex_up2: "\<exists>blk. CrossAttnUpBlock3D_init ex_get_motion_module ex_args = Inr blk"
  by (simp add: CrossAttnUpBlock3D_init_def ex_args_def py_range_numeral CrossAttnUpBlock3D_layer_def new_motion_module_def new_attention_def ex_get_motion_module_def)


text \<open>
  Claim C2. In an up block (\<^verbatim>\<open>UpBlock3D\<close> or \<^verbatim>\<open>CrossAttnUpBlock3D\<close>) built with
  \<open>num_layers = L \<ge> 1\<close> there are \<open>L\<close> resnets, and the resnet of layer \<open>i\<close> is
  constructed with input channel count \<open>resnet_in + skip\<close>, where \<open>resnet_in\<close> is
  \<open>prev_output_channel\<close> for \<open>i = 0\<close> and \<open>out_channels\<close> otherwise, and \<open>skip\<close> is
  \<open>in_channels\<close> for \<open>i = L - 1\<close> and \<open>out_channels\<close> otherwise.
\<close>

theorem up_block_channel_arithmetic:
  assumes "UpBlock3D_init gmm a = Inr blk \<or> CrossAttnUpBlock3D_init gmm a = Inr blk"
    and "1 \<le> num_layers a" and "0 \<le> i" and "i < num_layers a"
  shows "int (length (resnets blk)) = num_layers a \<and>
         rb_in_channels (resnets blk ! nat i) =
           (if i = 0 then prev_output_channel a else out_channels a)
           + (if i = num_layers a - 1 then in_channels a else out_channels a)"
proof -
  have r: "resnets blk =
           map (\<lambda>i. new_resnet a ((if i = 0 then prev_output_channel a else out_channels a)
                                   + (if i = num_layers a - 1 then in_channels a else out_channels a))
                       (out_channels a))
               (py_range (num_layers a))"
    using assms(1) UpBlock3D_init_resnets CrossAttnUpBlock3D_init_resnets by blast
  have n: "nat i < length (py_range (num_layers a))"
    using assms by (simp add: py_range_def)
  show ?thesis
    unfolding r using assms n py_range_nth[of i "num_layers a"]
    by (simp add: new_resnet_def length_py_range del: nth_map) (simp add: py_range_def new_resnet_def)
qed


theorem up_block_channel_arithmetic_witness:
  "\<exists>blk. UpBlock3D_init ex_get_motion_module ex_args = Inr blk \<and>
         1 \<le> num_layers ex_args \<and>
         int (length (resnets blk)) = 3 \<and>
         rb_in_channels (resnets blk ! 0) = 256 + 128 \<and>
         rb_in_channels (resnets blk ! 2) = 128 + 64"
proof -
  obtain blk where b: "UpBlock3D_init ex_get_motion_module ex_args = Inr blk"
    using ex_up by blast
  have n: "1 \<le> num_layers ex_args" by (simp add: ex_args_def)
  have "int (length (resnets blk)) = 3 \<and> rb_in_channels (resnets blk ! 0) = 256 + 128"
    using up_block_channel_arithmetic[OF disjI1[OF b] n, of 0] by (simp add: ex_args_def)
  moreover have "rb_in_channels (resnets blk ! 2) = 128 + 64"
    using up_block_channel_arithmetic[OF disjI1[OF b] n, of 2] by (simp add: ex_args_def)
  ultimately show ?thesis using b n by (intro exI[of _ blk]) simp
qed

text \<open>
  Claim C3, as amended. In an up block constructed with \<open>in_channels = 64\<close>,
  \<open>out_channels = 128\<close>, \<open>prev_output_channel = 256\<close> and three layers, the three
  resnets accept \<open>256 + 128\<close>, \<open>128 + 128\<close> and \<open>128 + 64\<close> input channels, in layer
  order: only the last layer's skip width is \<open>in_channels\<close>.
\<close>

theorem up_block_example_channels:
  assumes "in_channels a = 64" "out_channels a = 128" "prev_output_channel a = 256" "num_layers a = 3"
    and "UpBlock3D_init gmm a = Inr blk \<or> CrossAttnUpBlock3D_init gmm a = Inr blk"
  shows "map rb_in_channels (resnets blk) = [256 + 128, 128 + 128, 128 + 64]"
proof -
  have r: "resnets blk =
           map (\<lambda>i. new_resnet a ((if i = 0 then prev_output_channel a else out_channels a)
                                   + (if i = num_layers a - 1 then in_channels a else out_channels a))
                       (out_channels a))
               (py_range (num_layers a))"
    using assms(5) UpBlock3D_init_resnets CrossAttnUpBlock3D_init_resnets by blast
  show ?thesis unfolding r using assms(1-4)
    by (simp add: py_range_numeral new_resnet_def)
qed


theorem up_block_example_channels_witness:
  "\<exists>blk. CrossAttnUpBlock3D_init ex_get_motion_module ex_args = Inr blk \<and>
         in_channels ex_args = 64 \<and> out_channels ex_args = 128 \<and>
         prev_output_channel ex_args = 256 \<and> num_layers ex_args = 3 \<and>
         map rb_in_channels (resnets blk) = [384, 256, 192]"
proof -
  obtain blk where b: "CrossAttnUpBlock3D_init ex_get_motion_module ex_args = Inr blk"
    using ex_up2 by blast
  have a: "in_channels ex_args = 64" "out_channels ex_args = 128"
    "prev_output_channel ex_args = 256" "num_layers ex_args = 3"
    by (simp_all add: ex_args_def)
  have "map rb_in_channels (resnets blk) = [384, 256, 192]"
    using up_block_example_channels[OF a disjI2[OF b]] by simp
  with a b show ?thesis by (intro exI[of _ blk]) simp
qed

text \<open>
  Claim C3 as stated gives \<open>256 + 64\<close> for the first layer. The first of three layers
  is not the last, so its skip width is \<open>out_channels = 128\<close>, and its resnet accepts
  \<open>384\<close> channels.
\<close>

theorem up_block_example_channels_counterexample:
  "\<not> (\<forall>blk. UpBlock3D_init ex_get_motion_module ex_args = Inr blk \<longrightarrow>
            map rb_in_channels (resnets blk) = [256 + 64, 128 + 128, 128 + 64])"
proof
  assume h: "\<forall>blk. UpBlock3D_init ex_get_motion_module ex_args = Inr blk \<longrightarrow>
            map rb_in_channels (resnets blk) = [256 + 64, 128 + 128, 128 + 64]"
  obtain blk where b: "UpBlock3D_init ex_get_motion_module ex_args = Inr blk"
    using ex_up by blast
  have "resnets blk = map (\<lambda>i. new_resnet ex_args
            ((if i = 0 then prev_output_channel ex_args else out_channels ex_args)
             + (if i = num_layers ex_args - 1 then in_channels ex_args else out_channels ex_args))
            (out_channels ex_args)) (py_range (num_layers ex_args))"
    by (rule UpBlock3D_init_resnets[OF b])
  then have "map rb_in_channels (resnets blk) = [384, 256, 192]"
    by (simp add: ex_args_def py_range_numeral new_resnet_def)
  moreover have "map rb_in_channels (resnets blk) = [256 + 64, 128 + 128, 128 + 64]"
    using h b by blast
  ultimately show False by simp
qed

section \<open>Runs and loops\<close>

lemma bind_run_ret [simp]: "bind_run (ret x) f = f x"
  by (simp add: bind_run_def ret_def split: prod.splits)

lemma bind_run_raise [simp]: "bind_run (raise e) f = raise e"
  by (simp add: bind_run_def raise_def)

lemma bind_run_ret_right [simp]: "bind_run m ret = m"
  by (cases m) (auto simp: bind_run_def ret_def split: sum.splits)

lemma bind_run_Inl [simp]: "bind_run (evs, Inl e) f = (evs, Inl e)"
  by (simp add: bind_run_def)

lemma bind_run_Inr: "bind_run (evs, Inr x) f = (evs @ fst (f x), snd (f x))"
  by (simp add: bind_run_def split: prod.splits)

lemma bind_run_assoc: "bind_run (bind_run m f) g = bind_run m (\<lambda>x. bind_run (f x) g)"
  by (cases m) (auto simp: bind_run_def split: sum.splits prod.splits)

lemma bind_run_Inr_iff:
  "bind_run m f = (evs, Inr y) \<longleftrightarrow>
     (\<exists>e1 x e2. m = (e1, Inr x) \<and> f x = (e2, Inr y) \<and> evs = e1 @ e2)"
  by (cases m) (auto simp: bind_run_def split: sum.splits prod.splits)

lemma bind_run_events:
  assumes "ev \<in> set (fst (bind_run m f))"
    and "\<And>ev. ev \<in> set (fst m) \<Longrightarrow> P ev"
    and "\<And>x ev. ev \<in> set (fst (f x)) \<Longrightarrow> P ev"
  shows "P ev"
proof (cases m)
  case (Pair evs r)
  show ?thesis
  proof (cases r)
    case (Inl e)
    then show ?thesis using assms(1,2) Pair by simp
  next
    case (Inr x)
    then have "ev \<in> set evs \<or> ev \<in> set (fst (f x))"
      using assms(1) Pair by (simp add: bind_run_Inr)
    then show ?thesis using assms(2,3) Pair by auto
  qed
qed

lemma for_loop_append:
  "for_loop body (xs @ ys) s = bind_run (for_loop body xs s) (for_loop body ys)"
proof (induction xs arbitrary: s)
  case Nil
  then show ?case by simp
next
  case (Cons x xs)
  have "for_loop body (xs @ ys) = (\<lambda>s. bind_run (for_loop body xs s) (for_loop body ys))"
    by (rule ext) (rule Cons.IH)
  then show ?case by (simp add: bind_run_assoc)
qed

lemma for_loop_events:
  assumes "ev \<in> set (fst (for_loop body ls s))"
    and "\<And>l s ev. ev \<in> set (fst (body l s)) \<Longrightarrow> P ev"
  shows "P ev"
  using assms(1)
proof (induction ls arbitrary: s ev)
  case Nil
  then show ?case by (simp add: ret_def)
next
  case (Cons l ls)
  show ?case
  proof (rule bind_run_events[of ev "body l s" "for_loop body ls"])
    show "ev \<in> set (fst (bind_run (body l s) (for_loop body ls)))"
      using Cons.prems by simp
  next
    fix ev' assume "ev' \<in> set (fst (body l s))"
    then show "P ev'" by (rule assms(2))
  next
    fix x ev' assume "ev' \<in> set (fst (for_loop body ls x))"
    then show "P ev'" by (rule Cons.IH)
  qed
qed

lemma for_loop_split:
  assumes "for_loop body ls s = (evs, Inr s')"
  shows "\<exists>evs1 s1 evs2. for_loop body (take k ls) s = (evs1, Inr s1) \<and>
           for_loop body (drop k ls) s1 = (evs2, Inr s') \<and> evs = evs1 @ evs2"
proof -
  have "for_loop body (take k ls @ drop k ls) s = (evs, Inr s')"
    using assms by simp
  then show ?thesis
    unfolding for_loop_append bind_run_Inr_iff by blast
qed

text \<open>The events of the building blocks.\<close>

lemma lift_events [simp]: "fst (lift r) = []"
  by (simp add: lift_def)

lemma ret_events [simp]: "fst (ret x) = []"
  by (simp add: ret_def)

lemma raise_events [simp]: "fst (raise e) = []"
  by (simp add: raise_def)

lemma call_events [simp]: "fst (call ev r) = [ev]"
  by (simp add: call_def)

lemma per_frame_events: "ev' \<in> set (fst (per_frame vl ev operator h)) \<Longrightarrow> ev' = ev"
  unfolding per_frame_def
  by (erule bind_run_events; simp?) (erule bind_run_events; simp)

lemma checkpointing_guard_events [simp]: "fst (checkpointing_guard blk) = []"
  by (simp add: checkpointing_guard_def split: option.splits)

lemma motion_step_events: "ev \<in> set (fst (motion_step be t e mca mm h)) \<Longrightarrow> ev = MotionCall mca"
  by (auto simp: motion_step_def split: option.splits)

lemma pop_events:
  "ev \<in> set (fst (pop_res_hidden_states st)) \<Longrightarrow> ev = CatCall \<or> (\<exists>x. ev = SkipPop x)"
proof (cases st)
  case (Pair h skips)
  assume ev: "ev \<in> set (fst (pop_res_hidden_states st))"
  show ?thesis
  proof (cases "skips = []")
    case True
    then show ?thesis using ev Pair by (simp add: pop_res_hidden_states_def)
  next
    case False
    have "ev \<in> set (fst (bind_run (call (SkipPop (last skips)) (Inr (last skips)))
              (\<lambda>r. bind_run (call CatCall (torch_cat_dim1 h r)) (\<lambda>h. ret (h, butlast skips)))))"
      using ev Pair False by (simp add: pop_res_hidden_states_def)
    then show ?thesis
      by (rule bind_run_events) (auto elim!: bind_run_events)
  qed
qed


lemma for_loop_Nil_eq [simp]: "for_loop body [] = ret"
  by (rule ext) simp

lemma appending_loop:
  assumes B: "\<forall>l h outs evs h' outs'. body l (h, outs) = (evs, Inr (h', outs')) \<longrightarrow> outs' = outs @ [h']"
    and run: "for_loop body ls (h, outs) = (evs, Inr (h', outs'))"
  shows "\<exists>new. outs' = outs @ new \<and> length new = length ls \<and> (ls \<noteq> [] \<longrightarrow> last new = h')"
  using run
proof (induction ls arbitrary: h' outs' evs rule: rev_induct)
  case Nil
  then show ?case by (simp add: ret_def)
next
  case (snoc l ls)
  from snoc.prems obtain e1 h1 o1 e2 where
    r1: "for_loop body ls (h, outs) = (e1, Inr (h1, o1))" and
    r2: "body l (h1, o1) = (e2, Inr (h', outs'))"
    unfolding for_loop_append bind_run_Inr_iff by auto
  from snoc.IH[OF r1] obtain new where n: "o1 = outs @ new" "length new = length ls" by blast
  have "outs' = o1 @ [h']" using r2 B by blast
  then have "outs' = outs @ (new @ [h']) \<and> length (new @ [h']) = length (ls @ [l]) \<and> last (new @ [h']) = h'"
    using n by simp
  then show ?case by blast
qed

lemma appending_loop_entries:
  assumes B: "\<forall>l h outs evs h' outs'. body l (h, outs) = (evs, Inr (h', outs')) \<longrightarrow> outs' = outs @ [h']"
    and run: "for_loop body ls (h, []) = (evs, Inr (h', outs'))"
    and i: "i < length ls"
  shows "\<exists>evs_i. for_loop body (take (Suc i) ls) (h, []) = (evs_i, Inr (outs' ! i, take (Suc i) outs'))"
proof -
  from for_loop_split[OF run, of "Suc i"] obtain e1 h1 o1 e2 where
    r1: "for_loop body (take (Suc i) ls) (h, []) = (e1, Inr (h1, o1))" and
    r2: "for_loop body (drop (Suc i) ls) (h1, o1) = (e2, Inr (h', outs'))"
    by auto
  from appending_loop[OF B r1] i have o1: "length o1 = Suc i" "last o1 = h1"
    by auto
  from appending_loop[OF B r2] obtain new where n: "outs' = o1 @ new" by blast
  have "o1 \<noteq> []" using o1 by auto
  then have "outs' ! i = h1"
    using o1 n by (simp add: nth_append last_conv_nth)
  moreover have "take (Suc i) outs' = o1" using n o1 by simp
  ultimately show ?thesis using r1 by simp
qed

section \<open>The output sequence of a down block\<close>

lemma down_body_appends:
  "down_body layer l (h, outs) = (evs, Inr (h', outs')) \<Longrightarrow> outs' = outs @ [h']"
  by (auto simp: down_body_def bind_run_Inr_iff ret_def)

lemma layer_plain_cong:
  "training blk2 = training blk \<Longrightarrow> gradient_checkpointing blk2 = gradient_checkpointing blk \<Longrightarrow>
   layer_plain be blk2 vl t tr ehs mca = layer_plain be blk vl t tr ehs mca"
  by (intro ext) (simp add: layer_plain_def checkpointing_guard_def)

lemma layer_cross_attn_cong:
  "training blk2 = training blk \<Longrightarrow> gradient_checkpointing blk2 = gradient_checkpointing blk \<Longrightarrow>
   layer_cross_attn be blk2 vl t tr ehs ca mca = layer_cross_attn be blk vl t tr ehs ca mca"
  by (intro ext) (simp add: layer_cross_attn_def checkpointing_guard_def)

lemma downsample_tail_result:
  assumes "downsample_tail be vl samplers (h, outs) = (evs, Inr (h', outs'))"
  shows "(samplers = None \<and> h' = h \<and> outs' = outs) \<or> (samplers \<noteq> None \<and> outs' = outs @ [h'])"
  using assms
  by (cases samplers) (auto simp: downsample_tail_def ret_def bind_run_Inr_iff)

lemma downsample_tail_None [simp]: "downsample_tail be vl None st = ret st"
  by (cases st) (simp add: downsample_tail_def)

lemma downsample_tail_None_eq [simp]: "downsample_tail be vl None = ret"
  by (rule ext) simp

lemma first_layers_simps [simp]:
  "resnets (first_layers n blk) = take n (resnets blk)"
  "attentions (first_layers n blk) = take n (attentions blk)"
  "motion_modules (first_layers n blk) = take n (motion_modules blk)"
  "downsamplers (first_layers n blk) = None"
  "upsamplers (first_layers n blk) = None"
  "training (first_layers n blk) = training blk"
  "gradient_checkpointing (first_layers n blk) = gradient_checkpointing blk"
  "lora_scale (first_layers n blk) = lora_scale blk"
  "motion_lora_scale (first_layers n blk) = motion_lora_scale blk"
  by (simp_all add: first_layers_def)

lemma DownBlock3D_forward_run:
  assumes "DownBlock3D_forward be blk hp args = (hp', evs, Inr r)"
  obtains vl tr mcak where
    "shape_2 (hidden_states args) = Inr vl"
    "repeat_bc_to_bfc (temb args) vl = Inr tr"
    "set_motion_lora_scale hp (motion_lora_scale blk)
       (resolve (Some DownBlock3D_default_motion_cross_attention_kwargs)
          (motion_cross_attention_kwargs args)) = (hp', mcak)"
    "bind_run
       (for_loop (down_body (layer_plain be blk vl (temb args) tr (encoder_hidden_states args) (deref hp' mcak)))
          (zip (resnets blk) (motion_modules blk)) (hidden_states args, []))
       (downsample_tail be vl (downsamplers blk)) = (evs, Inr r)"
  using assms
  by (auto simp: DownBlock3D_forward_def raise_def split: sum.splits prod.splits)

lemma DownBlock3D_forward_eq:
  assumes "shape_2 (hidden_states args) = Inr vl"
    "repeat_bc_to_bfc (temb args) vl = Inr tr"
    "set_motion_lora_scale hp (motion_lora_scale blk)
       (resolve (Some DownBlock3D_default_motion_cross_attention_kwargs)
          (motion_cross_attention_kwargs args)) = (hp', mcak)"
  shows "DownBlock3D_forward be blk hp args =
    (hp', bind_run
       (for_loop (down_body (layer_plain be blk vl (temb args) tr (encoder_hidden_states args) (deref hp' mcak)))
          (zip (resnets blk) (motion_modules blk)) (hidden_states args, []))
       (downsample_tail be vl (downsamplers blk)))"
  using assms by (simp add: DownBlock3D_forward_def)

lemma shape_2_Inr: "shape_2 x = Inr vl \<Longrightarrow> vl = shape x ! 2"
  by (simp add: shape_2_def split: if_splits)

lemma down_outputs:
  assumes B: "\<forall>l h outs evs h' outs'. body l (h, outs) = (evs, Inr (h', outs')) \<longrightarrow> outs' = outs @ [h']"
    and run: "bind_run (for_loop body ls (h0, [])) (downsample_tail be vl samplers) = (evs, Inr (h, outs))"
    and lsn: "length ls = n"
  shows "length outs = n + (if samplers = None then 0 else 1) \<and>
         (\<forall>i<n. \<exists>evs_i. for_loop body (take (Suc i) ls) (h0, [])
                          = (evs_i, Inr (outs ! i, take (Suc i) outs))) \<and>
         (\<exists>evs_d. downsample_tail be vl samplers
                     (if n = 0 then (h0, []) else (outs ! (n - 1), take n outs))
                   = (evs_d, Inr (h, outs))) \<and>
         (samplers \<noteq> None \<longrightarrow> outs ! n = h)"
proof -
  from run obtain e1 hL oL e2 where
    loop: "for_loop body ls (h0, []) = (e1, Inr (hL, oL))" and
    tail: "downsample_tail be vl samplers (hL, oL) = (e2, Inr (h, outs))"
    unfolding bind_run_Inr_iff by auto
  from appending_loop[OF B loop] have oL: "length oL = n" "ls \<noteq> [] \<longrightarrow> last oL = hL"
    using lsn by auto
  from downsample_tail_result[OF tail]
  have t: "(samplers = None \<and> h = hL \<and> outs = oL) \<or> (samplers \<noteq> None \<and> outs = oL @ [h])" .
  have len: "length outs = n + (if samplers = None then 0 else 1)"
    using t oL by auto
  have pre: "take n outs = oL" using t oL by auto
  have ent: "\<exists>evs_i. for_loop body (take (Suc i) ls) (h0, [])
                          = (evs_i, Inr (outs ! i, take (Suc i) outs))" if i: "i < n" for i
  proof -
    from appending_loop_entries[OF B loop] i lsn obtain evs_i where
      e: "for_loop body (take (Suc i) ls) (h0, []) = (evs_i, Inr (oL ! i, take (Suc i) oL))"
      by blast
    have same: "oL ! i = outs ! i" "take (Suc i) oL = take (Suc i) outs"
      using t oL i by (auto simp: nth_append)
    show ?thesis using e same by simp
  qed
  have last_state: "(if n = 0 then (h0, []) else (outs ! (n - 1), take n outs)) = (hL, oL)"
  proof (cases "n = 0")
    case True
    then have "ls = []" using lsn by simp
    then show ?thesis using loop True by (simp add: ret_def)
  next
    case False
    then have "ls \<noteq> []" using lsn by auto
    then have "last oL = hL" using oL by simp
    moreover have "oL \<noteq> []" using oL False by auto
    ultimately have "oL ! (n - 1) = hL" using oL by (simp add: last_conv_nth)
    moreover have "outs ! (n - 1) = oL ! (n - 1)" using t oL False by (auto simp: nth_append)
    ultimately show ?thesis using pre False by simp
  qed
  have tl: "\<exists>evs_d. downsample_tail be vl samplers
                     (if n = 0 then (h0, []) else (outs ! (n - 1), take n outs))
                   = (evs_d, Inr (h, outs))"
    unfolding last_state using tail by auto
  have lst: "samplers \<noteq> None \<longrightarrow> outs ! n = h"
    using t oL by (auto simp: nth_append)
  show ?thesis using len ent tl lst by blast
qed

lemma DownBlock3D_forward_outputs:
  assumes fw: "DownBlock3D_forward be blk hp args = (hp', evs, Inr (h, outs))"
    and n: "n = length (zip (resnets blk) (motion_modules blk))"
  shows "length outs = n + (if downsamplers blk = None then 0 else 1) \<and>
         (\<forall>i<n. \<exists>evs_i. DownBlock3D_forward be (first_layers (Suc i) blk) hp args
                          = (hp', evs_i, Inr (outs ! i, take (Suc i) outs))) \<and>
         (\<exists>evs_d. downsample_tail be (shape (hidden_states args) ! 2) (downsamplers blk)
                     (if n = 0 then (hidden_states args, []) else (outs ! (n - 1), take n outs))
                   = (evs_d, Inr (h, outs))) \<and>
         (downsamplers blk \<noteq> None \<longrightarrow> outs ! n = h)"
proof -
  from DownBlock3D_forward_run[OF fw] obtain vl tr mcak where
    p: "shape_2 (hidden_states args) = Inr vl"
       "repeat_bc_to_bfc (temb args) vl = Inr tr"
       "set_motion_lora_scale hp (motion_lora_scale blk)
         (resolve (Some DownBlock3D_default_motion_cross_attention_kwargs)
            (motion_cross_attention_kwargs args)) = (hp', mcak)"
    and run: "bind_run
       (for_loop (down_body (layer_plain be blk vl (temb args) tr (encoder_hidden_states args) (deref hp' mcak)))
          (zip (resnets blk) (motion_modules blk)) (hidden_states args, []))
       (downsample_tail be vl (downsamplers blk)) = (evs, Inr (h, outs))"
    by blast
  define body where "body = down_body (layer_plain be blk vl (temb args) tr (encoder_hidden_states args) (deref hp' mcak))"
  define ls where "ls = zip (resnets blk) (motion_modules blk)"
  have B: "\<forall>l h outs evs h' outs'. body l (h, outs) = (evs, Inr (h', outs')) \<longrightarrow> outs' = outs @ [h']"
    unfolding body_def by (intro allI impI) (rule down_body_appends)
  have vl: "vl = shape (hidden_states args) ! 2" using p(1) by (rule shape_2_Inr)
  have lsn: "length ls = n" by (simp only: n ls_def)
  have run': "bind_run (for_loop body ls (hidden_states args, [])) (downsample_tail be vl (downsamplers blk))
                = (evs, Inr (h, outs))"
    using run by (simp only: body_def ls_def)
  have fl: "DownBlock3D_forward be (first_layers (Suc i) blk) hp args
            = (hp', for_loop body (take (Suc i) ls) (hidden_states args, []))" for i
  proof -
    have bc: "down_body (layer_plain be (first_layers (Suc i) blk) vl (temb args) tr (encoder_hidden_states args) (deref hp' mcak)) = body"
      unfolding body_def by (subst layer_plain_cong[of _ blk]) simp_all
    have p3: "set_motion_lora_scale hp (motion_lora_scale (first_layers (Suc i) blk))
         (resolve (Some DownBlock3D_default_motion_cross_attention_kwargs)
            (motion_cross_attention_kwargs args)) = (hp', mcak)"
      using p(3) by simp
    show ?thesis
      unfolding DownBlock3D_forward_eq[OF p(1) p(2) p3] by (simp add: bc ls_def take_zip)
  qed
  show ?thesis
    using down_outputs[OF B run' lsn] unfolding fl vl by simp
qed

lemma CrossAttnDownBlock3D_forward_run:
  assumes "CrossAttnDownBlock3D_forward be blk hp args = (hp', evs, Inr r)"
  obtains vl tr hp1 cak mcak where
    "shape_2 (hidden_states args) = Inr vl"
    "repeat_bc_to_bfc (temb args) vl = Inr tr"
    "set_lora_scale_in_place hp (lora_scale blk)
       (resolve (Some CrossAttnDownBlock3D_default_cross_attention_kwargs)
          (cross_attention_kwargs args)) = Inr (hp1, cak)"
    "set_motion_lora_scale hp1 (motion_lora_scale blk)
       (resolve (Some CrossAttnDownBlock3D_default_motion_cross_attention_kwargs)
          (motion_cross_attention_kwargs args)) = (hp', mcak)"
    "bind_run
       (for_loop (down_body (layer_cross_attn be blk vl (temb args) tr (encoder_hidden_states args)
                    (deref hp' cak) (deref hp' mcak)))
          (zip (resnets blk) (zip (attentions blk) (motion_modules blk))) (hidden_states args, []))
       (downsample_tail be vl (downsamplers blk)) = (evs, Inr r)"
  using assms
  by (auto simp: CrossAttnDownBlock3D_forward_def raise_def split: sum.splits prod.splits)

lemma CrossAttnDownBlock3D_forward_eq:
  assumes "shape_2 (hidden_states args) = Inr vl"
    "repeat_bc_to_bfc (temb args) vl = Inr tr"
    "set_lora_scale_in_place hp (lora_scale blk)
       (resolve (Some CrossAttnDownBlock3D_default_cross_attention_kwargs)
          (cross_attention_kwargs args)) = Inr (hp1, cak)"
    "set_motion_lora_scale hp1 (motion_lora_scale blk)
       (resolve (Some CrossAttnDownBlock3D_default_motion_cross_attention_kwargs)
          (motion_cross_attention_kwargs args)) = (hp', mcak)"
  shows "CrossAttnDownBlock3D_forward be blk hp args =
    (hp', bind_run
       (for_loop (down_body (layer_cross_attn be blk vl (temb args) tr (encoder_hidden_states args)
                    (deref hp' cak) (deref hp' mcak)))
          (zip (resnets blk) (zip (attentions blk) (motion_modules blk))) (hidden_states args, []))
       (downsample_tail be vl (downsamplers blk)))"
  using assms by (simp add: CrossAttnDownBlock3D_forward_def)

lemma CrossAttnDownBlock3D_forward_outputs:
  assumes fw: "CrossAttnDownBlock3D_forward be blk hp args = (hp', evs, Inr (h, outs))"
    and n: "n = length (zip (resnets blk) (zip (attentions blk) (motion_modules blk)))"
  shows "length outs = n + (if downsamplers blk = None then 0 else 1) \<and>
         (\<forall>i<n. \<exists>evs_i. CrossAttnDownBlock3D_forward be (first_layers (Suc i) blk) hp args
                          = (hp', evs_i, Inr (outs ! i, take (Suc i) outs))) \<and>
         (\<exists>evs_d. downsample_tail be (shape (hidden_states args) ! 2) (downsamplers blk)
                     (if n = 0 then (hidden_states args, []) else (outs ! (n - 1), take n outs))
                   = (evs_d, Inr (h, outs))) \<and>
         (downsamplers blk \<noteq> None \<longrightarrow> outs ! n = h)"
proof -
  from CrossAttnDownBlock3D_forward_run[OF fw] obtain vl tr hp1 cak mcak where
    p: "shape_2 (hidden_states args) = Inr vl"
       "repeat_bc_to_bfc (temb args) vl = Inr tr"
       "set_lora_scale_in_place hp (lora_scale blk)
         (resolve (Some CrossAttnDownBlock3D_default_cross_attention_kwargs)
            (cross_attention_kwargs args)) = Inr (hp1, cak)"
       "set_motion_lora_scale hp1 (motion_lora_scale blk)
         (resolve (Some CrossAttnDownBlock3D_default_motion_cross_attention_kwargs)
            (motion_cross_attention_kwargs args)) = (hp', mcak)"
    and run: "bind_run
       (for_loop (down_body (layer_cross_attn be blk vl (temb args) tr (encoder_hidden_states args)
                    (deref hp' cak) (deref hp' mcak)))
          (zip (resnets blk) (zip (attentions blk) (motion_modules blk))) (hidden_states args, []))
       (downsample_tail be vl (downsamplers blk)) = (evs, Inr (h, outs))"
    by blast
  define body where "body = down_body (layer_cross_attn be blk vl (temb args) tr (encoder_hidden_states args)
                    (deref hp' cak) (deref hp' mcak))"
  define ls where "ls = zip (resnets blk) (zip (attentions blk) (motion_modules blk))"
  have B: "\<forall>l h outs evs h' outs'. body l (h, outs) = (evs, Inr (h', outs')) \<longrightarrow> outs' = outs @ [h']"
    unfolding body_def by (intro allI impI) (rule down_body_appends)
  have vl: "vl = shape (hidden_states args) ! 2" using p(1) by (rule shape_2_Inr)
  have lsn: "length ls = n" by (simp only: n ls_def)
  have run': "bind_run (for_loop body ls (hidden_states args, [])) (downsample_tail be vl (downsamplers blk))
                = (evs, Inr (h, outs))"
    using run by (simp only: body_def ls_def)
  have fl: "CrossAttnDownBlock3D_forward be (first_layers (Suc i) blk) hp args
            = (hp', for_loop body (take (Suc i) ls) (hidden_states args, []))" for i
  proof -
    have bc: "down_body (layer_cross_attn be (first_layers (Suc i) blk) vl (temb args) tr (encoder_hidden_states args)
                (deref hp' cak) (deref hp' mcak)) = body"
      unfolding body_def by (subst layer_cross_attn_cong[of _ blk]) simp_all
    have p3: "set_lora_scale_in_place hp (lora_scale (first_layers (Suc i) blk))
         (resolve (Some CrossAttnDownBlock3D_default_cross_attention_kwargs)
            (cross_attention_kwargs args)) = Inr (hp1, cak)"
      using p(3) by simp
    have p4: "set_motion_lora_scale hp1 (motion_lora_scale (first_layers (Suc i) blk))
         (resolve (Some CrossAttnDownBlock3D_default_motion_cross_attention_kwargs)
            (motion_cross_attention_kwargs args)) = (hp', mcak)"
      using p(4) by simp
    show ?thesis
      unfolding CrossAttnDownBlock3D_forward_eq[OF p(1) p(2) p3 p4] by (simp add: bc ls_def take_zip)
  qed
  show ?thesis
    using down_outputs[OF B run' lsn] unfolding fl vl by simp
qed

lemma for_each_length: "for_each f xs = Inr ys \<Longrightarrow> length ys = length xs"
  using for_each_list_all2 list_all2_lengthD by fastforce

lemma DownBlock3D_init_structure:
  assumes "DownBlock3D_init gmm a = Inr blk"
  shows "length (resnets blk) = nat (num_layers a)" "length (motion_modules blk) = nat (num_layers a)"
    "downsamplers blk = new_downsamplers a"
proof -
  obtain layers where l: "for_each (DownBlock3D_layer gmm a) (py_range (num_layers a)) = Inr layers"
    and b: "resnets blk = map fst layers" "motion_modules blk = map snd layers"
      "downsamplers blk = new_downsamplers a"
    using assms by (auto simp: DownBlock3D_init_def split: sum.splits)
  show "length (resnets blk) = nat (num_layers a)" "length (motion_modules blk) = nat (num_layers a)"
    "downsamplers blk = new_downsamplers a"
    using for_each_length[OF l] b by (simp_all add: py_range_def)
qed

lemma CrossAttnDownBlock3D_init_structure:
  assumes "CrossAttnDownBlock3D_init gmm a = Inr blk"
  shows "length (resnets blk) = nat (num_layers a)" "length (attentions blk) = nat (num_layers a)"
    "length (motion_modules blk) = nat (num_layers a)"
    "downsamplers blk = new_downsamplers a"
proof -
  obtain layers where l: "for_each (CrossAttnDownBlock3D_layer gmm a) (py_range (num_layers a)) = Inr layers"
    and b: "resnets blk = map fst layers" "attentions blk = map (fst \<circ> snd) layers"
      "motion_modules blk = map (snd \<circ> snd) layers"
      "downsamplers blk = new_downsamplers a"
    using assms by (auto simp: CrossAttnDownBlock3D_init_def split: sum.splits)
  show "length (resnets blk) = nat (num_layers a)" "length (attentions blk) = nat (num_layers a)"
    "length (motion_modules blk) = nat (num_layers a)"
    "downsamplers blk = new_downsamplers a"
    using for_each_length[OF l] b by (simp_all add: py_range_def)
qed

text \<open>
  Claim C5. Let a down block (\<^verbatim>\<open>DownBlock3D\<close> or \<^verbatim>\<open>CrossAttnDownBlock3D\<close>) be
  constructed with \<open>num_layers = L\<close> (a layer count, \<open>0 \<le> L\<close>), whatever its
  attributes \<^verbatim>\<open>training\<close>, \<^verbatim>\<open>gradient_checkpointing\<close> and the adapter scales are at
  the time of the call. Whenever its forward call returns \<open>(h, outs)\<close>:
  \<^item> \<open>outs\<close> has \<open>L + 1\<close> entries with a downsampler and \<open>L\<close> without;
  \<^item> entry \<open>i < L\<close> is the hidden state after layer \<open>i\<close>: the same call on the block
    cut to its first \<open>i + 1\<close> layers returns the hidden state \<open>outs ! i\<close> (and the
    first \<open>i + 1\<close> entries);
  \<^item> the downsampler stage, applied to the state after the last layer, yields
    \<open>(h, outs)\<close>, and with a downsampler the last entry, \<open>outs ! L\<close>, is the returned
    hidden state \<open>h\<close>.
\<close>

theorem down_block_output_states:
  assumes cls: "(init = DownBlock3D_init \<and> forward = DownBlock3D_forward) \<or>
                (init = CrossAttnDownBlock3D_init \<and> forward = CrossAttnDownBlock3D_forward)"
    and built: "init get_motion_module a = Inr blk0"
    and L: "0 \<le> num_layers a"
    and same: "same_layers blk blk0"
    and fw: "forward be blk hp args = (hp', evs, Inr (h, outs))"
  shows "int (length outs) = num_layers a + (if add_downsample a then 1 else 0) \<and>
         (\<forall>i<nat (num_layers a). \<exists>evs_i.
            forward be (first_layers (Suc i) blk) hp args = (hp', evs_i, Inr (outs ! i, take (Suc i) outs))) \<and>
         (\<exists>evs_d. downsample_tail be (shape (hidden_states args) ! 2) (downsamplers blk)
                     (if num_layers a = 0 then (hidden_states args, [])
                      else (outs ! (nat (num_layers a) - 1), take (nat (num_layers a)) outs))
                   = (evs_d, Inr (h, outs))) \<and>
         (add_downsample a \<longrightarrow> outs ! nat (num_layers a) = h)"
proof -
  have "downsamplers blk0 = new_downsamplers a"
    using cls built DownBlock3D_init_structure(3)[of get_motion_module a blk0]
      CrossAttnDownBlock3D_init_structure(4)[of get_motion_module a blk0]
    by auto
  then have ds: "(downsamplers blk = None) = (\<not> add_downsample a)"
    using same by (simp add: same_layers_def new_downsamplers_def)
  have nz: "(nat (num_layers a) = 0) = (num_layers a = 0)" using L by auto
  have r: "length outs = nat (num_layers a) + (if downsamplers blk = None then 0 else 1) \<and>
         (\<forall>i<nat (num_layers a). \<exists>evs_i. forward be (first_layers (Suc i) blk) hp args
                          = (hp', evs_i, Inr (outs ! i, take (Suc i) outs))) \<and>
         (\<exists>evs_d. downsample_tail be (shape (hidden_states args) ! 2) (downsamplers blk)
                     (if nat (num_layers a) = 0 then (hidden_states args, [])
                      else (outs ! (nat (num_layers a) - 1), take (nat (num_layers a)) outs))
                   = (evs_d, Inr (h, outs))) \<and>
         (downsamplers blk \<noteq> None \<longrightarrow> outs ! nat (num_layers a) = h)"
    using cls
  proof
    assume c: "init = DownBlock3D_init \<and> forward = DownBlock3D_forward"
    have n: "nat (num_layers a) = length (zip (resnets blk) (motion_modules blk))"
      using DownBlock3D_init_structure[of get_motion_module a blk0] built c same
      by (simp add: same_layers_def)
    have fw': "DownBlock3D_forward be blk hp args = (hp', evs, Inr (h, outs))"
      using fw c by simp
    show ?thesis
      using DownBlock3D_forward_outputs[OF fw' n] c by simp
  next
    assume c: "init = CrossAttnDownBlock3D_init \<and> forward = CrossAttnDownBlock3D_forward"
    have n: "nat (num_layers a) = length (zip (resnets blk) (zip (attentions blk) (motion_modules blk)))"
      using CrossAttnDownBlock3D_init_structure[of get_motion_module a blk0] built c same
      by (simp add: same_layers_def)
    have fw': "CrossAttnDownBlock3D_forward be blk hp args = (hp', evs, Inr (h, outs))"
      using fw c by simp
    show ?thesis
      using CrossAttnDownBlock3D_forward_outputs[OF fw' n] c by simp
  qed
  have "int (length outs) = num_layers a + (if add_downsample a then 1 else 0)"
    using r ds L by simp
  then show ?thesis
    using r unfolding nz ds by simp
qed

section \<open>Skip entries in an up block\<close>

lemma pops_append [simp]: "pops (xs @ ys) = pops xs @ pops ys"
  by (induction xs) (auto split: event.splits)

lemma pops_none: "\<forall>ev\<in>set evs. \<forall>x. ev \<noteq> SkipPop x \<Longrightarrow> pops evs = []"
  by (induction evs) (auto split: event.splits)

lemma bind_run_eventsD:
  "ev \<in> set (fst (bind_run m f)) \<Longrightarrow> ev \<in> set (fst m) \<or> (\<exists>x. ev \<in> set (fst (f x)))"
  by (erule bind_run_events) auto

lemma for_loop_eventsD:
  "ev \<in> set (fst (for_loop body ls s)) \<Longrightarrow> \<exists>l s'. ev \<in> set (fst (body l s'))"
  by (erule for_loop_events) auto

lemma layer_plain_events:
  "ev \<in> set (fst (layer_plain be blk vl t tr ehs mca l h)) \<Longrightarrow> ev = ResnetCall \<or> ev = MotionCall mca"
  unfolding layer_plain_def
  by (cases l) (auto dest!: bind_run_eventsD dest: per_frame_events motion_step_events)

lemma layer_cross_attn_events:
  "ev \<in> set (fst (layer_cross_attn be blk vl t tr ehs ca mca l h)) \<Longrightarrow>
     ev = ResnetCall \<or> ev = AttnCall ca \<or> ev = MotionCall mca"
  unfolding layer_cross_attn_def
  by (cases l) (auto dest!: bind_run_eventsD dest: per_frame_events motion_step_events)

lemma pop_Nil [simp]: "pop_res_hidden_states (h, []) = ([], Inl IndexError)"
  by (simp add: pop_res_hidden_states_def raise_def)

lemma pop_snoc [simp]:
  "pop_res_hidden_states (h, pre @ [x]) =
     ([SkipPop x, CatCall], map_sum id (\<lambda>h'. (h', pre)) (torch_cat_dim1 h x))"
  by (cases "torch_cat_dim1 h x")
     (simp_all add: pop_res_hidden_states_def bind_run_def call_def ret_def)

lemma up_body_Nil [simp]: "up_body layer l (h, []) = ([], Inl IndexError)"
  by (simp add: up_body_def)

lemma up_body_snoc:
  "up_body layer l (h, pre @ [x]) =
     (case torch_cat_dim1 h x of
        Inl e \<Rightarrow> ([SkipPop x, CatCall], Inl e)
      | Inr h1 \<Rightarrow>
          (case layer l h1 of
             (evs, Inl e) \<Rightarrow> ([SkipPop x, CatCall] @ evs, Inl e)
           | (evs, Inr h2) \<Rightarrow> ([SkipPop x, CatCall] @ evs, Inr (h2, pre))))"
  by (cases "torch_cat_dim1 h x")
     (auto simp: up_body_def bind_run_def ret_def split: prod.splits sum.splits)

lemma up_body_prefix:
  assumes "skips \<noteq> []"
  shows "up_body layer l (h, pre @ skips) = with_prefix pre (up_body layer l (h, skips))"
proof -
  obtain ys x where s: "skips = ys @ [x]"
    using assms by (metis append_butlast_last_id)
  have "up_body layer l (h, (pre @ ys) @ [x]) = with_prefix pre (up_body layer l (h, ys @ [x]))"
    unfolding up_body_snoc
    by (auto simp: with_prefix_def split: sum.splits prod.splits)
  then show ?thesis using s by simp
qed

lemma up_body_success:
  assumes np: "\<forall>l h ev. ev \<in> set (fst (layer l h)) \<longrightarrow> (\<forall>x. ev \<noteq> SkipPop x)"
    and run: "up_body layer l (h, skips) = (evs, Inr (h', r))"
  shows "skips \<noteq> [] \<and> r = butlast skips \<and> pops evs = [last skips]"
proof (cases "skips = []")
  case True
  then show ?thesis using run by simp
next
  case False
  then obtain ys x where s: "skips = ys @ [x]"
    by (metis append_butlast_last_id)
  from run[unfolded s up_body_snoc] obtain h1 e2 where
    "torch_cat_dim1 h x = Inr h1" "layer l h1 = (e2, Inr h')" "evs = [SkipPop x, CatCall] @ e2" "r = ys"
    by (auto split: sum.splits prod.splits)
  moreover have "pops e2 = []"
    using np calculation(2) by (intro pops_none) (metis fst_conv)
  ultimately show ?thesis using s by simp
qed

lemma up_loop_prefix:
  assumes np: "\<forall>l h ev. ev \<in> set (fst (layer l h)) \<longrightarrow> (\<forall>x. ev \<noteq> SkipPop x)"
  shows "length ls \<le> length skips \<Longrightarrow>
     for_loop (up_body layer) ls (h, pre @ skips) = with_prefix pre (for_loop (up_body layer) ls (h, skips))"
proof (induction ls arbitrary: h skips)
  case Nil
  then show ?case by (simp add: with_prefix_def ret_def)
next
  case (Cons l ls)
  then have ne: "skips \<noteq> []" by auto
  obtain evs r where b: "up_body layer l (h, skips) = (evs, r)" by (cases "up_body layer l (h, skips)")
  show ?case
  proof (cases r)
    case (Inl e)
    then show ?thesis
      using b up_body_prefix[OF ne, of layer l h pre] by (simp add: with_prefix_def)
  next
    case (Inr st)
    obtain h1 r1 where st: "st = (h1, r1)" by (cases st)
    from up_body_success[OF np b[unfolded Inr st]] have r1: "r1 = butlast skips" by simp
    then have len: "length ls \<le> length r1" using Cons.prems by simp
    have "for_loop (up_body layer) (l # ls) (h, pre @ skips)
            = bind_run (evs, Inr (h1, pre @ r1)) (for_loop (up_body layer) ls)"
      using b Inr st up_body_prefix[OF ne, of layer l h pre] by (simp add: with_prefix_def)
    also have "\<dots> = with_prefix pre (bind_run (evs, Inr (h1, r1)) (for_loop (up_body layer) ls))"
      unfolding bind_run_Inr Cons.IH[OF len]
      by (simp add: with_prefix_def split: prod.splits sum.splits)
    finally show ?thesis using b Inr st by simp
  qed
qed

lemma up_loop_success:
  assumes np: "\<forall>l h ev. ev \<in> set (fst (layer l h)) \<longrightarrow> (\<forall>x. ev \<noteq> SkipPop x)"
  shows "for_loop (up_body layer) ls (h, skips) = (evs, Inr (h', r)) \<Longrightarrow>
     length ls \<le> length skips \<and> r = take (length skips - length ls) skips \<and>
     pops evs = rev (drop (length skips - length ls) skips)"
proof (induction ls arbitrary: h skips evs)
  case Nil
  then show ?case by (simp add: ret_def)
next
  case (Cons l ls)
  from Cons.prems obtain e1 h1 r1 e2 where
    b: "up_body layer l (h, skips) = (e1, Inr (h1, r1))" and
    rest: "for_loop (up_body layer) ls (h1, r1) = (e2, Inr (h', r))" and
    evs: "evs = e1 @ e2"
    by (auto simp: bind_run_Inr_iff)
  from up_body_success[OF np b] have s: "skips \<noteq> []" "r1 = butlast skips" "pops e1 = [last skips]"
    by simp_all
  from Cons.IH[OF rest] have ih: "length ls \<le> length r1" "r = take (length r1 - length ls) r1"
    "pops e2 = rev (drop (length r1 - length ls) r1)" by simp_all
  have l1: "length r1 = length skips - 1" using s by simp
  have len: "length (l # ls) \<le> length skips" using ih(1) l1 s(1) by (cases skips) auto
  have k: "length skips - length (l # ls) = length r1 - length ls" using l1 by simp
  have sk: "skips = r1 @ [last skips]" using s by simp
  have kk: "length r1 - length ls \<le> length r1" by simp
  have "take (length r1 - length ls) skips = take (length r1 - length ls) r1"
    by (subst sk) (simp add: kk)
  moreover have "drop (length r1 - length ls) skips = drop (length r1 - length ls) r1 @ [last skips]"
    by (subst sk) (simp add: kk)
  ultimately show ?case
    using len ih s(3) evs unfolding k by simp
qed

lemma up_loop_index_error:
  assumes np: "\<forall>l h ev. ev \<in> set (fst (layer l h)) \<longrightarrow> (\<forall>x. ev \<noteq> SkipPop x)"
    and short: "length skips < length ls"
    and run: "for_loop (up_body layer) (take (length skips) ls) (h, skips) = (evs, Inr s')"
  shows "for_loop (up_body layer) ls (h, skips) = (evs, Inl IndexError)"
proof -
  obtain h' r where s': "s' = (h', r)" by (cases s')
  from up_loop_success[OF np run[unfolded s']] short have "r = []" by simp
  obtain l rest where d: "drop (length skips) ls = l # rest"
    using short by (cases "drop (length skips) ls") auto
  have "for_loop (up_body layer) (take (length skips) ls @ drop (length skips) ls) (h, skips)
          = (evs, Inl IndexError)"
    unfolding for_loop_append run s' d using \<open>r = []\<close> by (simp add: bind_run_Inr)
  then show ?thesis by simp
qed

lemma up_loop_short_fails:
  assumes np: "\<forall>l h ev. ev \<in> set (fst (layer l h)) \<longrightarrow> (\<forall>x. ev \<noteq> SkipPop x)"
    and short: "length skips < length ls"
  shows "\<exists>e. snd (for_loop (up_body layer) ls (h, skips)) = Inl e"
proof (cases "snd (for_loop (up_body layer) ls (h, skips))")
  case (Inl e)
  then show ?thesis by blast
next
  case (Inr st)
  obtain h' r where "st = (h', r)" by (cases st)
  then have "for_loop (up_body layer) ls (h, skips) = (fst (for_loop (up_body layer) ls (h, skips)), Inr (h', r))"
    using Inr by (metis prod.collapse)
  from up_loop_success[OF np this] short show ?thesis by simp
qed

lemma layer_plain_no_pop:
  "\<forall>l h ev. ev \<in> set (fst (layer_plain be blk vl t tr ehs mca l h)) \<longrightarrow> (\<forall>x. ev \<noteq> SkipPop x)"
  using layer_plain_events by fastforce

lemma layer_cross_attn_no_pop:
  "\<forall>l h ev. ev \<in> set (fst (layer_cross_attn be blk vl t tr ehs ca mca l h)) \<longrightarrow> (\<forall>x. ev \<noteq> SkipPop x)"
  using layer_cross_attn_events by fastforce

lemma upsample_tail_None [simp]: "upsample_tail be vl sz None st = ret st"
  by (cases st) (simp add: upsample_tail_def)

lemma upsample_tail_None_eq [simp]: "upsample_tail be vl sz None = ret"
  by (rule ext) simp

lemma upsample_tail_events:
  "ev \<in> set (fst (upsample_tail be vl sz samplers st)) \<Longrightarrow> ev = UpsampleCall"
  by (cases st; cases samplers)
     (auto simp: upsample_tail_def dest!: bind_run_eventsD for_loop_eventsD dest: per_frame_events)

lemma upsample_tail_result:
  assumes "upsample_tail be vl sz samplers (h, r) = (evs, Inr (h', r'))"
  shows "r' = r \<and> pops evs = []"
proof -
  have "r' = r"
    using assms by (cases samplers) (auto simp: upsample_tail_def ret_def bind_run_Inr_iff)
  moreover have "pops evs = []"
  proof (rule pops_none, intro ballI allI)
    fix ev x assume "ev \<in> set evs"
    then have "ev \<in> set (fst (upsample_tail be vl sz samplers (h, r)))" using assms by simp
    then show "ev \<noteq> SkipPop x" using upsample_tail_events by fastforce
  qed
  ultimately show ?thesis by simp
qed

lemma with_prefix_bind_tail:
  "bind_run (with_prefix pre m) (upsample_tail be vl sz samplers)
     = with_prefix pre (bind_run m (upsample_tail be vl sz samplers))"
proof (cases m)
  case (Pair evs r)
  show ?thesis
  proof (cases r)
    case (Inl e)
    then show ?thesis using Pair by (simp add: with_prefix_def)
  next
    case (Inr st)
    obtain h rest where st: "st = (h, rest)" by (cases st)
    show ?thesis
      unfolding Pair Inr st
      by (cases samplers)
         (auto simp: with_prefix_def bind_run_def upsample_tail_def ret_def split: prod.splits sum.splits)
  qed
qed

lemma returning_first_with_prefix:
  "returning_first (hp, with_prefix pre m) = returning_first (hp, m)"
  by (cases m) (auto simp: returning_first_def with_prefix_def split: sum.splits)

lemma up_run_success:
  assumes np: "\<forall>l h ev. ev \<in> set (fst (layer l h)) \<longrightarrow> (\<forall>x. ev \<noteq> SkipPop x)"
    and run: "bind_run (for_loop (up_body layer) ls (h, skips)) (upsample_tail be vl sz samplers)
                = (evs, Inr (h', rest))"
  shows "length ls \<le> length skips \<and> pops evs = rev (drop (length skips - length ls) skips) \<and>
         rest = take (length skips - length ls) skips"
proof -
  from run obtain e1 h1 r1 e2 where
    loop: "for_loop (up_body layer) ls (h, skips) = (e1, Inr (h1, r1))" and
    tail: "upsample_tail be vl sz samplers (h1, r1) = (e2, Inr (h', rest))" and
    evs: "evs = e1 @ e2"
    unfolding bind_run_Inr_iff by auto
  from up_loop_success[OF np loop] upsample_tail_result[OF tail] evs
  show ?thesis by simp
qed

lemma up_run_prefix:
  assumes np: "\<forall>l h ev. ev \<in> set (fst (layer l h)) \<longrightarrow> (\<forall>x. ev \<noteq> SkipPop x)"
    and len: "length ls \<le> length suf"
  shows "bind_run (for_loop (up_body layer) ls (h, pre @ suf)) (upsample_tail be vl sz samplers)
           = with_prefix pre (bind_run (for_loop (up_body layer) ls (h, suf)) (upsample_tail be vl sz samplers))"
  unfolding up_loop_prefix[OF np len] by (rule with_prefix_bind_tail)

lemma up_run_short:
  assumes np: "\<forall>l h ev. ev \<in> set (fst (layer l h)) \<longrightarrow> (\<forall>x. ev \<noteq> SkipPop x)"
    and short: "length skips < length ls"
  shows "\<exists>e. snd (bind_run (for_loop (up_body layer) ls (h, skips)) tail) = Inl e"
proof -
  from up_loop_short_fails[OF np short] obtain e where
    "snd (for_loop (up_body layer) ls (h, skips)) = Inl e" by blast
  then have "for_loop (up_body layer) ls (h, skips) = (fst (for_loop (up_body layer) ls (h, skips)), Inl e)"
    by (metis prod.collapse)
  then have "bind_run (for_loop (up_body layer) ls (h, skips)) tail
               = (fst (for_loop (up_body layer) ls (h, skips)), Inl e)"
    by (metis bind_run_Inl)
  then show ?thesis by simp
qed

lemma up_forward_generic:
  fixes locals :: "('hp, 'mm) block \<Rightarrow> 'a forward_args \<Rightarrow> heap \<times> ('a, 'a tensor \<times> 'a tensor list) run"
    and lay :: "('hp, 'mm) block \<Rightarrow> 'l list"
  assumes shape:
    "(\<exists>e. \<forall>blk2 skips. A blk2 \<longrightarrow>
         locals blk2 (args\<lparr>res_hidden_states_tuple := skips\<rparr>) = (hp, [], Inl e)) \<or>
     (\<exists>hp' layer vl.
        (\<forall>l h ev. ev \<in> set (fst (layer l h)) \<longrightarrow> (\<forall>x. ev \<noteq> SkipPop x)) \<and>
        (\<forall>blk2 skips. A blk2 \<longrightarrow>
           locals blk2 (args\<lparr>res_hidden_states_tuple := skips\<rparr>)
             = (hp', bind_run (for_loop (up_body layer) (lay blk2) (hidden_states args, skips))
                       (upsample_tail be vl (upsample_size args) (upsamplers blk2)))))"
    and A: "A blk" "\<And>k. A (first_layers k blk)"
    and lay: "\<And>k. lay (first_layers k blk) = take k (lay blk)"
    and n: "n = length (lay blk)"
    and skips: "skips = res_hidden_states_tuple args"
  shows "(\<forall>hp' evs h rest. locals blk args = (hp', evs, Inr (h, rest)) \<longrightarrow>
            n \<le> length skips \<and> pops evs = rev (drop (length skips - n) skips) \<and>
            rest = take (length skips - n) skips)"
    and "\<forall>pre pre' suf. n \<le> length suf \<longrightarrow>
            returning_first (locals blk (args\<lparr>res_hidden_states_tuple := pre @ suf\<rparr>))
              = returning_first (locals blk (args\<lparr>res_hidden_states_tuple := pre' @ suf\<rparr>))"
    and "length skips < n \<longrightarrow> (\<exists>e. snd (snd (locals blk args)) = Inl e)"
    and "length skips < n \<longrightarrow>
           (\<forall>hp' evs st. locals (first_layers (length skips) blk) args = (hp', evs, Inr st) \<longrightarrow>
                locals blk args = (hp', evs, Inl IndexError) \<and> pops evs = rev skips)"
proof -
  have args: "args\<lparr>res_hidden_states_tuple := skips\<rparr> = args" using skips by simp
  from shape show "(\<forall>hp' evs h rest. locals blk args = (hp', evs, Inr (h, rest)) \<longrightarrow>
            n \<le> length skips \<and> pops evs = rev (drop (length skips - n) skips) \<and>
            rest = take (length skips - n) skips)"
  proof
    assume "\<exists>e. \<forall>blk2 skips. A blk2 \<longrightarrow>
         locals blk2 (args\<lparr>res_hidden_states_tuple := skips\<rparr>) = (hp, [], Inl e)"
    then obtain e where "locals blk (args\<lparr>res_hidden_states_tuple := skips\<rparr>) = (hp, [], Inl e)"
      using A(1) by blast
    then show ?thesis unfolding args by simp
  next
    assume "\<exists>hp' layer vl.
        (\<forall>l h ev. ev \<in> set (fst (layer l h)) \<longrightarrow> (\<forall>x. ev \<noteq> SkipPop x)) \<and>
        (\<forall>blk2 skips. A blk2 \<longrightarrow>
           locals blk2 (args\<lparr>res_hidden_states_tuple := skips\<rparr>)
             = (hp', bind_run (for_loop (up_body layer) (lay blk2) (hidden_states args, skips))
                       (upsample_tail be vl (upsample_size args) (upsamplers blk2))))"
    then obtain hp1 layer vl where
      np: "\<forall>l h ev. ev \<in> set (fst (layer l h)) \<longrightarrow> (\<forall>x. ev \<noteq> SkipPop x)" and
      eq: "\<And>blk2 skips. A blk2 \<Longrightarrow>
           locals blk2 (args\<lparr>res_hidden_states_tuple := skips\<rparr>)
             = (hp1, bind_run (for_loop (up_body layer) (lay blk2) (hidden_states args, skips))
                       (upsample_tail be vl (upsample_size args) (upsamplers blk2)))"
      by blast
    show ?thesis
    proof (intro allI impI)
      fix hp' evs h rest
      assume r: "locals blk args = (hp', evs, Inr (h, rest))"
      have "bind_run (for_loop (up_body layer) (lay blk) (hidden_states args, skips))
                       (upsample_tail be vl (upsample_size args) (upsamplers blk)) = (evs, Inr (h, rest))"
        using eq[OF A(1), of skips] r unfolding args by simp
      from up_run_success[OF np this] show "n \<le> length skips \<and> pops evs = rev (drop (length skips - n) skips) \<and>
            rest = take (length skips - n) skips"
        unfolding n by simp
    qed
  qed
  from shape show "\<forall>pre pre' suf. n \<le> length suf \<longrightarrow>
            returning_first (locals blk (args\<lparr>res_hidden_states_tuple := pre @ suf\<rparr>))
              = returning_first (locals blk (args\<lparr>res_hidden_states_tuple := pre' @ suf\<rparr>))"
  proof
    assume "\<exists>e. \<forall>blk2 skips. A blk2 \<longrightarrow>
         locals blk2 (args\<lparr>res_hidden_states_tuple := skips\<rparr>) = (hp, [], Inl e)"
    then obtain e where "\<And>skips. locals blk (args\<lparr>res_hidden_states_tuple := skips\<rparr>) = (hp, [], Inl e)"
      using A(1) by blast
    then show ?thesis by simp
  next
    assume "\<exists>hp' layer vl.
        (\<forall>l h ev. ev \<in> set (fst (layer l h)) \<longrightarrow> (\<forall>x. ev \<noteq> SkipPop x)) \<and>
        (\<forall>blk2 skips. A blk2 \<longrightarrow>
           locals blk2 (args\<lparr>res_hidden_states_tuple := skips\<rparr>)
             = (hp', bind_run (for_loop (up_body layer) (lay blk2) (hidden_states args, skips))
                       (upsample_tail be vl (upsample_size args) (upsamplers blk2))))"
    then obtain hp1 layer vl where
      np: "\<forall>l h ev. ev \<in> set (fst (layer l h)) \<longrightarrow> (\<forall>x. ev \<noteq> SkipPop x)" and
      eq: "\<And>blk2 skips. A blk2 \<Longrightarrow>
           locals blk2 (args\<lparr>res_hidden_states_tuple := skips\<rparr>)
             = (hp1, bind_run (for_loop (up_body layer) (lay blk2) (hidden_states args, skips))
                       (upsample_tail be vl (upsample_size args) (upsamplers blk2)))"
      by blast
    show ?thesis
    proof (intro allI impI)
      fix pre pre' suf :: "'a tensor list"
      assume len: "n \<le> length suf"
      then have l: "length (lay blk) \<le> length suf" using n by simp
      show "returning_first (locals blk (args\<lparr>res_hidden_states_tuple := pre @ suf\<rparr>))
              = returning_first (locals blk (args\<lparr>res_hidden_states_tuple := pre' @ suf\<rparr>))"
        unfolding eq[OF A(1)] up_run_prefix[OF np l] returning_first_with_prefix ..
    qed
  qed
  from shape show "length skips < n \<longrightarrow> (\<exists>e. snd (snd (locals blk args)) = Inl e)"
  proof
    assume "\<exists>e. \<forall>blk2 skips. A blk2 \<longrightarrow>
         locals blk2 (args\<lparr>res_hidden_states_tuple := skips\<rparr>) = (hp, [], Inl e)"
    then obtain e where "locals blk (args\<lparr>res_hidden_states_tuple := skips\<rparr>) = (hp, [], Inl e)"
      using A(1) by blast
    then show ?thesis unfolding args by simp
  next
    assume "\<exists>hp' layer vl.
        (\<forall>l h ev. ev \<in> set (fst (layer l h)) \<longrightarrow> (\<forall>x. ev \<noteq> SkipPop x)) \<and>
        (\<forall>blk2 skips. A blk2 \<longrightarrow>
           locals blk2 (args\<lparr>res_hidden_states_tuple := skips\<rparr>)
             = (hp', bind_run (for_loop (up_body layer) (lay blk2) (hidden_states args, skips))
                       (upsample_tail be vl (upsample_size args) (upsamplers blk2))))"
    then obtain hp1 layer vl where
      np: "\<forall>l h ev. ev \<in> set (fst (layer l h)) \<longrightarrow> (\<forall>x. ev \<noteq> SkipPop x)" and
      eq: "\<And>blk2 skips. A blk2 \<Longrightarrow>
           locals blk2 (args\<lparr>res_hidden_states_tuple := skips\<rparr>)
             = (hp1, bind_run (for_loop (up_body layer) (lay blk2) (hidden_states args, skips))
                       (upsample_tail be vl (upsample_size args) (upsamplers blk2)))"
      by blast
    show ?thesis
    proof
      assume "length skips < n"
      then have s: "length skips < length (lay blk)" using n by simp
      show "\<exists>e. snd (snd (locals blk args)) = Inl e"
        using up_run_short[OF np s] eq[OF A(1), of skips] unfolding args by simp
    qed
  qed
  from shape show "length skips < n \<longrightarrow>
           (\<forall>hp' evs st. locals (first_layers (length skips) blk) args = (hp', evs, Inr st) \<longrightarrow>
                locals blk args = (hp', evs, Inl IndexError) \<and> pops evs = rev skips)"
  proof
    assume "\<exists>e. \<forall>blk2 skips. A blk2 \<longrightarrow>
         locals blk2 (args\<lparr>res_hidden_states_tuple := skips\<rparr>) = (hp, [], Inl e)"
    then obtain e where "locals (first_layers (length skips) blk) (args\<lparr>res_hidden_states_tuple := skips\<rparr>) = (hp, [], Inl e)"
      using A(2) by blast
    then show ?thesis unfolding args by simp
  next
    assume "\<exists>hp' layer vl.
        (\<forall>l h ev. ev \<in> set (fst (layer l h)) \<longrightarrow> (\<forall>x. ev \<noteq> SkipPop x)) \<and>
        (\<forall>blk2 skips. A blk2 \<longrightarrow>
           locals blk2 (args\<lparr>res_hidden_states_tuple := skips\<rparr>)
             = (hp', bind_run (for_loop (up_body layer) (lay blk2) (hidden_states args, skips))
                       (upsample_tail be vl (upsample_size args) (upsamplers blk2))))"
    then obtain hp1 layer vl where
      np: "\<forall>l h ev. ev \<in> set (fst (layer l h)) \<longrightarrow> (\<forall>x. ev \<noteq> SkipPop x)" and
      eq: "\<And>blk2 skips. A blk2 \<Longrightarrow>
           locals blk2 (args\<lparr>res_hidden_states_tuple := skips\<rparr>)
             = (hp1, bind_run (for_loop (up_body layer) (lay blk2) (hidden_states args, skips))
                       (upsample_tail be vl (upsample_size args) (upsamplers blk2)))"
      by blast
    show ?thesis
    proof (intro impI allI)
      fix hp' evs st
      assume short: "length skips < n"
        and r: "locals (first_layers (length skips) blk) args = (hp', evs, Inr st)"
      have s: "length skips < length (lay blk)" using short n by simp
      have "locals (first_layers (length skips) blk) args
              = (hp1, for_loop (up_body layer) (take (length skips) (lay blk)) (hidden_states args, skips))"
        using eq[OF A(2), of "length skips" skips] unfolding args lay by simp
      then have hp: "hp' = hp1" and
        loop: "for_loop (up_body layer) (take (length skips) (lay blk)) (hidden_states args, skips) = (evs, Inr st)"
        using r by simp_all
      obtain h' rest where st: "st = (h', rest)" by (cases st)
      have "length (take (length skips) (lay blk)) = length skips" using s by simp
      with up_loop_success[OF np loop[unfolded st]] have p: "pops evs = rev skips" by simp
      have "locals blk args = (hp1, evs, Inl IndexError)"
        using eq[OF A(1), of skips] up_loop_index_error[OF np s loop] unfolding args by simp
      then show "locals blk args = (hp', evs, Inl IndexError) \<and> pops evs = rev skips"
        using hp p by simp
    qed
  qed
qed

end
